theory Spec2Isabelle
  imports Complex_Main
begin

section \<open>Values of the interpreter\<close>

text \<open>
  OPAL is a tree-walking Lisp interpreter written in Python. Parsed expressions and
  evaluated values live in one universe of Python objects: \<^verbatim>\<open>None\<close>, integers, floats,
  booleans, strings (symbols and string tokens), lists, the closable objects of
  \<^verbatim>\<open>datatypes.py\<close> (Function, Template, Instance) and, as a value returned by
  \<^verbatim>\<open>globals\<close>, the class \<^verbatim>\<open>ValueError\<close> itself.

  A float is represented by the rational number it denotes; rounding to binary64 is
  outside the model.

  \<^verbatim>\<open>self.type\<close> of a closable is one of the strings \<^verbatim>\<open>function\<close>, \<^verbatim>\<open>method\<close>,
  \<^verbatim>\<open>lambda\<close>, \<^verbatim>\<open>self\<close>, \<^verbatim>\<open>template\<close>, \<^verbatim>\<open>instance\<close>. The identifier string
  \<^verbatim>\<open>f"ID:{random.randint(0, 10**k)}.{self.type}.{self.name}"\<close> is kept as its three
  components: the random number, the type and the text of the name (\<open>id_name\<close>
  below). The number ends at the first point of the string and the type at the second,
  so two identifier strings are equal exactly when the three components are. The
  identifier is a field of its own, fixed at construction: the name of a lambda is
  replaced afterwards.

  \<open>PProc parameters body\<close> is the value that \<^verbatim>\<open>define\<close> binds to a name: a reference to
  a parameter list and a body. \<open>PTemplate c init\<close> carries \<^verbatim>\<open>self.init\<close>.
\<close>

datatype kind = KFunction | KMethod | KLambda | KSelf | KTemplate | KInstance

datatype pyval =
    PNone
  | PInt int
  | PFloat rat
  | PBool bool
  | PStr string
  | PList "pyval list"
  | PValueErrorClass
  | PProc pyval pyval
  | PFunction closable
  | PTemplate closable pyval
  | PInstance closable
and closable =
    Closable (cname: pyval) (cparameters: pyval) (cbody: pyval) (ctype: kind)
      (cid: "nat \<times> kind \<times> pyval")

type_synonym ident = "nat \<times> kind \<times> pyval"

text \<open>
  Exceptions. A \<^verbatim>\<open>TypeError\<close> carries what its message is made of:
  \<^verbatim>\<open>f"unsupported argument for 'car': {prs.convert(x)}"\<close> is \<open>Unsupported ''car'' x\<close>, and
  \<^verbatim>\<open>f"{self.name} takes {len(self.parameters)} argument... but {len(args)} were given"\<close>
  is \<open>Takes name expected given\<close>. The other messages are raised by Python itself.
\<close>

datatype tmsg =
    Unsupported string pyval
  | Takes pyval nat nat
  | NotSubscriptable
  | NoLen
  | NotIterable
  | Unhashable
  | BadArguments

datatype error =
    TypeError tmsg
  | IndexError
  | KeyError
  | NameError
  | ArityError
  | SyntaxError
  | IOError

text \<open>Python truth value testing, as used by \<^verbatim>\<open>if val:\<close>, \<^verbatim>\<open>x or []\<close> and \<^verbatim>\<open>a and b\<close>.\<close>

fun truthy :: "pyval \<Rightarrow> bool" where
  "truthy PNone = False"
| "truthy (PInt i) = (i \<noteq> 0)"
| "truthy (PFloat q) = (q \<noteq> 0)"
| "truthy (PBool b) = b"
| "truthy (PStr s) = (s \<noteq> [])"
| "truthy (PList xs) = (xs \<noteq> [])"
| "truthy PValueErrorClass = True"
| "truthy (PProc ps b) = True"
| "truthy (PFunction c) = True"
| "truthy (PTemplate c i) = True"
| "truthy (PInstance c) = True"

text \<open>
  Subscription \<^verbatim>\<open>x[i]\<close> with a constant index \<open>i \<ge> 0\<close>, and the slice \<^verbatim>\<open>x[k:]\<close>.
  Lists and strings support both; indexing past the end raises \<^verbatim>\<open>IndexError\<close>, a
  slice never does. Every other object of the universe raises \<^verbatim>\<open>TypeError\<close>.
\<close>

fun py_index :: "pyval \<Rightarrow> nat \<Rightarrow> error + pyval" where
  "py_index (PList xs) i = (if i < length xs then Inr (xs ! i) else Inl IndexError)"
| "py_index (PStr s) i = (if i < length s then Inr (PStr [s ! i]) else Inl IndexError)"
| "py_index v i = Inl (TypeError NotSubscriptable)"

fun py_slice_from :: "pyval \<Rightarrow> nat \<Rightarrow> error + pyval" where
  "py_slice_from (PList xs) k = Inr (PList (drop k xs))"
| "py_slice_from (PStr s) k = Inr (PStr (drop k s))"
| "py_slice_from v k = Inl (TypeError NotSubscriptable)"

text \<open>\<^verbatim>\<open>len(x)\<close> and iteration \<^verbatim>\<open>for e in x\<close>.\<close>

fun py_len :: "pyval \<Rightarrow> error + nat" where
  "py_len (PList xs) = Inr (length xs)"
| "py_len (PStr s) = Inr (length s)"
| "py_len v = Inl (TypeError NoLen)"

fun py_iter :: "pyval \<Rightarrow> error + pyval list" where
  "py_iter (PList xs) = Inr xs"
| "py_iter (PStr s) = Inr (map (\<lambda>c. PStr [c]) s)"
| "py_iter v = Inl (TypeError NotIterable)"

section \<open>car/cdr combinations (keywords.py)\<close>

text \<open>
  \<^verbatim>\<open>
  def head(x):
      try: return x[0]
      except: raise TypeError(f"unsupported argument for 'car': {prs.convert(x)}")

  def tail(x):
      try: return x[1:]
      except: raise TypeError(f"unsupported argument for 'cdr': {prs.convert(x)}")

  def evcxr(x, output):
      if not x: return output
      elif x.endswith("a"): return evcxr(x.removesuffix("a"), head(output))
      elif x.endswith("d"): return evcxr(x.removesuffix("d"), tail(output))
  \<close>
  The bare \<^verbatim>\<open>except\<close> turns every failure of the subscription into the
  \<^verbatim>\<open>TypeError\<close> of the accessor. A letter other than \<^verbatim>\<open>a\<close> and \<^verbatim>\<open>d\<close> falls off the end
  of \<^verbatim>\<open>evcxr\<close>, which then returns \<^verbatim>\<open>None\<close>.
\<close>

definition head :: "pyval \<Rightarrow> error + pyval" where
  "head x = (case py_index x 0 of
               Inr v \<Rightarrow> Inr v
             | Inl e \<Rightarrow> Inl (TypeError (Unsupported ''car'' x)))"

definition tail :: "pyval \<Rightarrow> error + pyval" where
  "tail x = (case py_slice_from x 1 of
               Inr v \<Rightarrow> Inr v
             | Inl e \<Rightarrow> Inl (TypeError (Unsupported ''cdr'' x)))"

function evcxr :: "string \<Rightarrow> pyval \<Rightarrow> error + pyval" where
  "evcxr x output =
     (if x = [] then Inr output
      else if last x = CHR ''a'' then
        (case head output of Inl e \<Rightarrow> Inl e | Inr v \<Rightarrow> evcxr (butlast x) v)
      else if last x = CHR ''d'' then
        (case tail output of Inl e \<Rightarrow> Inl e | Inr v \<Rightarrow> evcxr (butlast x) v)
      else Inr PNone)"
  by pat_completeness auto
termination
  by (relation "measure (\<lambda>(x, output). length x)") auto



section \<open>The preprocessor (parser.py)\<close>

text \<open>
  \<^verbatim>\<open>lst_to_Python\<close> hands the preprocessor nested lists of token strings.
\<close>

datatype tok = Tok string | TList "tok list"

text \<open>
  \<^verbatim>\<open>
  def isnumber(x):
      return bool(re.match(r"^[-]?[0-9]*[.]?[0-9]+$", str(x)))
  \<close>
  After the optional sign the text is a run of digits, or a (possibly empty) run of
  digits, a point and a non-empty run of digits. Python's \<^verbatim>\<open>$\<close> also matches just
  before a final newline.
\<close>

definition is_digit :: "char \<Rightarrow> bool" where
  "is_digit c = (let n = (of_char c :: nat) in 48 \<le> n \<and> n \<le> 57)"

definition drop_sign :: "string \<Rightarrow> string" where
  "drop_sign s = (case s of [] \<Rightarrow> [] | c # r \<Rightarrow> if c = CHR ''-'' then r else s)"

definition matches_number :: "string \<Rightarrow> bool" where
  "matches_number s =
     (let s1 = drop_sign s; ip = takeWhile is_digit s1; rest = dropWhile is_digit s1
      in case rest of
           [] \<Rightarrow> ip \<noteq> []
         | c # fp \<Rightarrow> c = CHR ''.'' \<and> fp \<noteq> [] \<and> list_all is_digit fp)"

definition strip_newline :: "string \<Rightarrow> string" where
  "strip_newline s = (if s \<noteq> [] \<and> last s = CHR 0x0A then butlast s else s)"

definition isnumber :: "string \<Rightarrow> bool" where
  "isnumber s = (matches_number s \<or> (s \<noteq> [] \<and> last s = CHR 0x0A \<and> matches_number (butlast s)))"

text \<open>
  \<^verbatim>\<open>int(x)\<close> and \<^verbatim>\<open>float(x)\<close> on a text that \<^verbatim>\<open>isnumber\<close> accepts (both ignore the
  final newline). \<^verbatim>\<open>float\<close> is the exact decimal value.
\<close>

definition digit_val :: "char \<Rightarrow> nat" where
  "digit_val c = of_char c - 48"

definition nat_of_digits :: "string \<Rightarrow> nat" where
  "nat_of_digits ds = foldl (\<lambda>n c. 10 * n + digit_val c) 0 ds"

definition sign_of :: "string \<Rightarrow> int" where
  "sign_of s = (case s of [] \<Rightarrow> 1 | c # r \<Rightarrow> if c = CHR ''-'' then - 1 else 1)"

definition py_int :: "string \<Rightarrow> int" where
  "py_int x = (let s = strip_newline x in sign_of s * int (nat_of_digits (drop_sign s)))"

definition py_float :: "string \<Rightarrow> rat" where
  "py_float x =
     (let s = strip_newline x; s1 = drop_sign s;
          ip = takeWhile is_digit s1; fp = drop 1 (dropWhile is_digit s1)
      in of_int (sign_of s * int (nat_of_digits (ip @ fp))) / of_nat (10 ^ length fp))"

text \<open>
  \<^verbatim>\<open>
  def retype(x):
      if kw.isnumber(x): return float(x) if "." in x else int(x)
      elif x in ("#t", "#f"): return x == "#t"
      return x
  \<close>
\<close>

definition retype :: "string \<Rightarrow> pyval" where
  "retype x =
     (if isnumber x then (if CHR ''.'' \<in> set x then PFloat (py_float x) else PInt (py_int x))
      else if x = ''#t'' \<or> x = ''#f'' then PBool (x = ''#t'')
      else PStr x)"

text \<open>
  \<^verbatim>\<open>
  def preprocess(expr):
      if isinstance(expr, list):
          if expr == []: return []
          elif isinstance(expr[0], list): return [preprocess(expr[0]), *preprocess(expr[1:])]
          elif expr[0] == "'": return [["quote", preprocess(expr[1])], *preprocess(expr[2:])]
          return [retype(expr[0]), *preprocess(expr[1:])]
      return expr
  \<close>
  \<open>preprocess_list\<close> is \<^verbatim>\<open>preprocess\<close> on a list (it returns the elements of the
  result), \<open>preprocess\<close> is \<^verbatim>\<open>preprocess\<close> on any argument. A quote mark with nothing
  after it fails in \<^verbatim>\<open>expr[1]\<close>.
\<close>

fun preprocess :: "tok \<Rightarrow> error + pyval"
  and preprocess_list :: "tok list \<Rightarrow> error + pyval list" where
  "preprocess (Tok s) = Inr (PStr s)"
| "preprocess (TList xs) =
     (case preprocess_list xs of Inl e \<Rightarrow> Inl e | Inr vs \<Rightarrow> Inr (PList vs))"
| "preprocess_list [] = Inr []"
| "preprocess_list (TList ys # xs) =
     (case preprocess (TList ys) of
        Inl e \<Rightarrow> Inl e
      | Inr h \<Rightarrow> (case preprocess_list xs of Inl e \<Rightarrow> Inl e | Inr t \<Rightarrow> Inr (h # t)))"
| "preprocess_list (Tok s # xs) =
     (if s = [CHR 0x27] then
        (case xs of
           [] \<Rightarrow> Inl IndexError
         | y # zs \<Rightarrow>
             (case preprocess y of
                Inl e \<Rightarrow> Inl e
              | Inr q \<Rightarrow>
                  (case preprocess_list zs of
                     Inl e \<Rightarrow> Inl e
                   | Inr t \<Rightarrow> Inr (PList [PStr ''quote'', q] # t))))
      else
        (case preprocess_list xs of Inl e \<Rightarrow> Inl e | Inr t \<Rightarrow> Inr (retype s # t)))"

section \<open>Interpreter state\<close>

text \<open>
  \<^verbatim>\<open>config.py\<close> holds the process-wide objects: the active environment
  \<^verbatim>\<open>cf.config.ENV\<close>, the closure registry \<^verbatim>\<open>cf.config.CLOSURES\<close> (a dict from
  identifier to Environment object) and the store \<^verbatim>\<open>cf.config.GLOBALS\<close>. Environment
  objects in the registry are mutable and have an identity, so they live in a heap of
  addresses; \<open>nxt\<close> is the next unused address. \<open>randoms\<close> and \<open>drawn\<close> are the
  results of \<^verbatim>\<open>random.randint\<close> still to come.

  An environment is its sequence of bindings, oldest first.
\<close>

type_synonym env = "(pyval \<times> pyval) list"

type_synonym addr = nat

record state =
  ENV :: env
  CLOSURES :: "ident \<Rightarrow> addr option"
  heap :: "addr \<Rightarrow> env"
  nxt :: addr
  GLOBALS :: "string \<Rightarrow> pyval option"
  randoms :: "nat \<Rightarrow> nat"
  drawn :: nat

text \<open>
  \<^verbatim>\<open>evaluate.py\<close> is not among the sources: \<^verbatim>\<open>ev.evaluate\<close> is a parameter of every
  function that calls it. It takes an expression and the state, and returns a value or
  raises, with the state it leaves behind.
\<close>

type_synonym evaluator = "pyval \<Rightarrow> state \<Rightarrow> (error + pyval) \<times> state"

text \<open>
  \<^verbatim>\<open>
  def evlist(x):
      return [*map(ev.evaluate, x)]
  \<close>
\<close>

fun evlist :: "evaluator \<Rightarrow> pyval list \<Rightarrow> state \<Rightarrow> (error + pyval list) \<times> state" where
  "evlist ev [] s = (Inr [], s)"
| "evlist ev (x # xs) s =
     (case ev x s of
        (Inl e, s1) \<Rightarrow> (Inl e, s1)
      | (Inr v, s1) \<Rightarrow>
          (case evlist ev xs s1 of
             (Inl e, s2) \<Rightarrow> (Inl e, s2)
           | (Inr vs, s2) \<Rightarrow> (Inr (v # vs), s2)))"

section \<open>Global variables and conditionals (keywords.py)\<close>

text \<open>
  \<^verbatim>\<open>
  def globals(var, val=None):
      if val: cf.config.GLOBALS[var] = ev.evaluate(val)
      else: return cf.config.GLOBALS.get(var, ValueError)
  \<close>
  \<^verbatim>\<open>global\<close> is in the table \<^verbatim>\<open>IRREGULAR\<close>: it receives its arguments unevaluated. A
  call without a value has \<open>val = PNone\<close>. The first branch returns \<^verbatim>\<open>None\<close>.
\<close>

definition globals :: "evaluator \<Rightarrow> string \<Rightarrow> pyval \<Rightarrow> state \<Rightarrow> (error + pyval) \<times> state" where
  "globals ev var val s =
     (if truthy val then
        (case ev val s of
           (Inl e, s1) \<Rightarrow> (Inl e, s1)
         | (Inr v, s1) \<Rightarrow> (Inr PNone, s1\<lparr>GLOBALS := (GLOBALS s1)(var \<mapsto> v)\<rparr>))
      else
        (Inr (case GLOBALS s var of Some v \<Rightarrow> v | None \<Rightarrow> PValueErrorClass), s))"

text \<open>
  \<^verbatim>\<open>
  def cond(expr):
      return ev.evaluate(expr[0][1]) if (expr[0][0] == "else" or ev.evaluate(expr[0][0])) else cond(expr[1:])
  \<close>
  \<^verbatim>\<open>expr\<close> is the list of clauses. On the empty list \<^verbatim>\<open>expr[0]\<close> raises
  \<^verbatim>\<open>IndexError\<close>.
\<close>

fun cond :: "evaluator \<Rightarrow> pyval list \<Rightarrow> state \<Rightarrow> (error + pyval) \<times> state" where
  "cond ev [] s = (Inl IndexError, s)"
| "cond ev (c # cs) s =
     (case py_index c 0 of
        Inl e \<Rightarrow> (Inl e, s)
      | Inr h \<Rightarrow>
          if h = PStr ''else'' then
            (case py_index c 1 of Inl e \<Rightarrow> (Inl e, s) | Inr b \<Rightarrow> ev b s)
          else
            (case ev h s of
               (Inl e, s1) \<Rightarrow> (Inl e, s1)
             | (Inr v, s1) \<Rightarrow>
                 if truthy v then
                   (case py_index c 1 of Inl e \<Rightarrow> (Inl e, s1) | Inr b \<Rightarrow> ev b s1)
                 else cond ev cs s1))"

text \<open>
  The error kinds of the interpreter's taxonomy: \<^verbatim>\<open>SyntaxError\<close>, \<^verbatim>\<open>NameError\<close>,
  \<^verbatim>\<open>ArityError\<close>, \<^verbatim>\<open>TypeError\<close>, \<^verbatim>\<open>IOError\<close>.
\<close>

fun in_taxonomy :: "error \<Rightarrow> bool" where
  "in_taxonomy (TypeError m) = True"
| "in_taxonomy NameError = True"
| "in_taxonomy ArityError = True"
| "in_taxonomy SyntaxError = True"
| "in_taxonomy IOError = True"
| "in_taxonomy IndexError = False"
| "in_taxonomy KeyError = False"

text \<open>
  Every clause has a condition, none is headed by \<^verbatim>\<open>else\<close>, and each condition,
  evaluated in the state its predecessors left, gives a false value.
\<close>

fun all_conditions_false :: "evaluator \<Rightarrow> pyval list \<Rightarrow> state \<Rightarrow> bool" where
  "all_conditions_false ev [] s = True"
| "all_conditions_false ev (c # cs) s =
     (case py_index c 0 of
        Inl e \<Rightarrow> False
      | Inr h \<Rightarrow>
          h \<noteq> PStr ''else'' \<and>
          (case ev h s of
             (Inl e, s1) \<Rightarrow> False
           | (Inr v, s1) \<Rightarrow> \<not> truthy v \<and> all_conditions_false ev cs s1))"

section \<open>Environments\<close>

text \<open>
  \<^verbatim>\<open>environment.py\<close> is not among the sources. The operations of the class
  \<^verbatim>\<open>Environment\<close> that \<^verbatim>\<open>datatypes.py\<close> calls are modelled from the specification's
  data model: an environment is an ordered sequence of (name, value) bindings in which
  later bindings shadow earlier ones and both remain present.
\<close>

text \<open>Modelled from the spec: \<^verbatim>\<open>Environment()\<close>, absent from the sources, creates an
  empty environment.\<close>

definition env_empty :: env where
  "env_empty = []"

text \<open>Modelled from the spec: \<^verbatim>\<open>Environment.__len__\<close>, absent from the sources, is the
  binding count.\<close>

definition env_len :: "env \<Rightarrow> nat" where
  "env_len E = length E"

text \<open>Modelled from the spec: \<^verbatim>\<open>Environment.extend\<close>, absent from the sources,
  appends another environment's bindings onto this one as a new scope.\<close>

definition env_extend :: "env \<Rightarrow> env \<Rightarrow> env" where
  "env_extend E child = E @ child"

text \<open>Modelled from the spec: \<^verbatim>\<open>Environment.end_scope\<close>, absent from the sources,
  removes the last \<open>n\<close> bindings.\<close>

definition env_end_scope :: "nat \<Rightarrow> env \<Rightarrow> env" where
  "env_end_scope n E = take (length E - n) E"

text \<open>Modelled from the spec: \<^verbatim>\<open>Environment.lookup\<close>, absent from the sources,
  returns the most recent binding of the name or signals \<^verbatim>\<open>NameError\<close>.\<close>

definition env_lookup :: "pyval \<Rightarrow> env \<Rightarrow> error + pyval" where
  "env_lookup name E = (case map_of (rev E) name of None \<Rightarrow> Inl NameError | Some v \<Rightarrow> Inr v)"

fun overwrite_first :: "pyval \<Rightarrow> pyval \<Rightarrow> env \<Rightarrow> env" where
  "overwrite_first name v [] = []"
| "overwrite_first name v ((n, x) # r) =
     (if n = name then (n, v) # r else (n, x) # overwrite_first name v r)"

fun remove_first :: "pyval \<Rightarrow> env \<Rightarrow> env" where
  "remove_first name [] = []"
| "remove_first name ((n, x) # r) = (if n = name then r else (n, x) # remove_first name r)"

text \<open>Modelled from the spec: \<^verbatim>\<open>Environment.set\<close>, absent from the sources, adds a
  binding or overwrites one: the most recent binding of the name takes the new value;
  a name that is not bound gets a new binding at the end.\<close>

definition env_set :: "pyval \<Rightarrow> pyval \<Rightarrow> env \<Rightarrow> env" where
  "env_set name v E =
     (if name \<in> fst ` set E then rev (overwrite_first name v (rev E)) else E @ [(name, v)])"

text \<open>Modelled from the spec: \<^verbatim>\<open>Environment.define\<close>, absent from the sources, adds
  or overwrites a binding of the name to a reference to the parameter list and the
  body.\<close>

definition env_define :: "pyval \<Rightarrow> pyval \<Rightarrow> pyval \<Rightarrow> env \<Rightarrow> env" where
  "env_define name parameters body E = env_set name (PProc parameters body) E"

text \<open>Modelled from the spec: \<^verbatim>\<open>Environment.delete\<close>, absent from the sources,
  removes the most recent binding with that name.\<close>

definition env_delete :: "pyval \<Rightarrow> env \<Rightarrow> env" where
  "env_delete name E = rev (remove_first name (rev E))"

text \<open>Modelled from the spec: \<^verbatim>\<open>Environment.match_arguments\<close>, absent from the
  sources, binds each parameter name positionally to the corresponding argument and
  fails with \<^verbatim>\<open>ArityError\<close> when the name count and the value count differ. Names and
  values are Python iterables.\<close>

definition match_arguments :: "pyval \<Rightarrow> pyval \<Rightarrow> env \<Rightarrow> error + env" where
  "match_arguments parameters args E =
     (case py_iter parameters of
        Inl e \<Rightarrow> Inl e
      | Inr ns \<Rightarrow>
          (case py_iter args of
             Inl e \<Rightarrow> Inl e
           | Inr vs \<Rightarrow> if length ns \<noteq> length vs then Inl ArityError else Inr (E @ zip ns vs)))"

text \<open>Modelled from the spec: \<^verbatim>\<open>Environment.clone\<close>, absent from the sources,
  produces an independent copy of the binding sequence: a new object with the same
  bindings.\<close>

definition env_clone :: "env \<Rightarrow> env" where
  "env_clone E = E"

text \<open>Allocation of a new Environment object holding \<open>E\<close>.\<close>

definition alloc :: "env \<Rightarrow> state \<Rightarrow> addr \<times> state" where
  "alloc E s = (nxt s, s\<lparr>heap := (heap s)(nxt s := E), nxt := Suc (nxt s)\<rparr>)"

text \<open>Modelled from the spec: \<^verbatim>\<open>Environment.runlocal\<close>, absent from the sources, runs
  \<open>logic\<close> in a freshly extended local scope of the environment object at \<open>a\<close> that is
  torn down afterward on every exit: the bindings the object has gained since the
  scope was opened are removed by count.\<close>

definition runlocal ::
  "addr \<Rightarrow> (state \<Rightarrow> (error + 'r) \<times> state) \<Rightarrow> state \<Rightarrow> (error + 'r) \<times> state" where
  "runlocal a logic s =
     (let n0 = env_len (heap s a) in
      case logic s of
        (r, s1) \<Rightarrow>
          (r, s1\<lparr>heap := (heap s1)(a := env_end_scope (env_len (heap s1 a) - n0) (heap s1 a))\<rparr>))"

text \<open>Modelled from the spec: \<^verbatim>\<open>Environment.runClosed\<close>, absent from the sources and
  called on the active environment, runs \<open>logic\<close> in a borrowed foreign environment:
  it activates the environment object at \<open>a\<close> as current scope by extending the
  active environment with the object's bindings, runs \<open>logic\<close>, and deactivates the
  borrowed scope on exit regardless of outcome. The scope is a contiguous run of
  bindings, removed as a unit by count: the last \<open>n\<close> bindings of the active
  environment, \<open>n\<close> being the number lent. Side effects on the bindings are kept:
  the bindings that leave the active environment are the bindings of the object
  from then on.\<close>

definition runClosed ::
  "addr \<Rightarrow> (state \<Rightarrow> (error + 'r) \<times> state) \<Rightarrow> state \<Rightarrow> (error + 'r) \<times> state" where
  "runClosed a logic s =
     (let n = env_len (heap s a) in
      case logic (s\<lparr>ENV := env_extend (ENV s) (heap s a)\<rparr>) of
        (r, s1) \<Rightarrow>
          (r, s1\<lparr>heap := (heap s1)(a := drop (env_len (ENV s1) - n) (ENV s1)),
                 ENV := env_end_scope n (ENV s1)\<rparr>))"

section \<open>Function calls (datatypes.py)\<close>

text \<open>
  \<^verbatim>\<open>
  def eval(self, args):
      def logic(args):
          cf.config.CLOSURES[self.id].match_arguments(self.parameters, args)
          self.type in ('lambda', 'self') and cf.config.CLOSURES[self.id].define('self', self.parameters, self.body)
          cf.config.ENV.extend(cf.config.CLOSURES[self.id])
          try:
              value = ev.evaluate(self.body)
              if isinstance(value, Function): cf.config.CLOSURES[value.id] = cf.config.CLOSURES[self.id].clone()
          finally:
              cf.config.ENV.end_scope(len(cf.config.CLOSURES[self.id]))
              self.type in ('lambda', 'self') and cf.config.CLOSURES[self.id].delete('self')
          return value
      args = [] if args == None else kw.evlist(args)
      if len(self.parameters) != len(args):
          raise TypeError(f"{self.name} takes {len(self.parameters)} argument{"s"*bool(len(self.parameters)-1)} but {len(args)} were given")
      return cf.config.CLOSURES[self.id].runlocal(logic, args)
  \<close>
  \<^verbatim>\<open>cf.config.CLOSURES[self.id]\<close> raises \<^verbatim>\<open>KeyError\<close> when the registry has no entry.
\<close>

definition binds_self :: "closable \<Rightarrow> bool" where
  "binds_self f = (ctype f = KLambda \<or> ctype f = KSelf)"

text \<open>The three statements of \<^verbatim>\<open>logic\<close> before \<^verbatim>\<open>try\<close>; nothing between them changes
  the registry. \<open>call_bindings\<close> is what the first two make of the function's own
  environment.\<close>

definition call_bindings :: "closable \<Rightarrow> pyval list \<Rightarrow> env \<Rightarrow> error + env" where
  "call_bindings f args E0 =
     (case match_arguments (cparameters f) (PList args) E0 of
        Inl e \<Rightarrow> Inl e
      | Inr E \<Rightarrow>
          Inr (if binds_self f
               then env_define (PStr ''self'') (cparameters f) (cbody f) E else E))"

definition enter_call :: "closable \<Rightarrow> pyval list \<Rightarrow> state \<Rightarrow> error + state" where
  "enter_call f args s =
     (case CLOSURES s (cid f) of
        None \<Rightarrow> Inl KeyError
      | Some a \<Rightarrow>
          (case call_bindings f args (heap s a) of
             Inl e \<Rightarrow> Inl e
           | Inr E1 \<Rightarrow> Inr (s\<lparr>heap := (heap s)(a := E1), ENV := env_extend (ENV s) E1\<rparr>)))"

text \<open>The statement after \<^verbatim>\<open>value = ev.evaluate(self.body)\<close> inside \<^verbatim>\<open>try\<close>.\<close>

definition capture_closure :: "closable \<Rightarrow> (error + pyval) \<times> state \<Rightarrow> (error + pyval) \<times> state" where
  "capture_closure f rs =
     (case rs of
        (Inr (PFunction g), s) \<Rightarrow>
          (case CLOSURES s (cid f) of
             None \<Rightarrow> (Inl KeyError, s)
           | Some b \<Rightarrow>
               (case alloc (env_clone (heap s b)) s of
                  (c, s1) \<Rightarrow> (Inr (PFunction g), s1\<lparr>CLOSURES := (CLOSURES s1)(cid g \<mapsto> c)\<rparr>)))
      | (r, s) \<Rightarrow> (r, s))"

text \<open>The \<^verbatim>\<open>finally\<close> block. An exception raised inside it replaces the outcome of
  the \<^verbatim>\<open>try\<close> block.\<close>

definition unwind_call :: "closable \<Rightarrow> (error + pyval) \<times> state \<Rightarrow> (error + pyval) \<times> state" where
  "unwind_call f rs =
     (case rs of
        (r, s) \<Rightarrow>
          (case CLOSURES s (cid f) of
             None \<Rightarrow> (Inl KeyError, s)
           | Some c \<Rightarrow>
               (let s1 = s\<lparr>ENV := env_end_scope (env_len (heap s c)) (ENV s)\<rparr>
                in if binds_self f
                   then (r, s1\<lparr>heap := (heap s1)(c := env_delete (PStr ''self'') (heap s1 c))\<rparr>)
                   else (r, s1))))"

definition logic :: "evaluator \<Rightarrow> closable \<Rightarrow> pyval list \<Rightarrow> state \<Rightarrow> (error + pyval) \<times> state" where
  "logic ev f args s =
     (case enter_call f args s of
        Inl e \<Rightarrow> (Inl e, s)
      | Inr s2 \<Rightarrow> unwind_call f (capture_closure f (ev (cbody f) s2)))"

text \<open>\<^verbatim>\<open>args = [] if args == None else kw.evlist(args)\<close>\<close>

definition eval_args :: "evaluator \<Rightarrow> pyval \<Rightarrow> state \<Rightarrow> (error + pyval list) \<times> state" where
  "eval_args ev args s =
     (if args = PNone then (Inr [], s)
      else (case py_iter args of Inl e \<Rightarrow> (Inl e, s) | Inr xs \<Rightarrow> evlist ev xs s))"

definition Function_eval :: "evaluator \<Rightarrow> closable \<Rightarrow> pyval \<Rightarrow> state \<Rightarrow> (error + pyval) \<times> state" where
  "Function_eval ev f args s =
     (case eval_args ev args s of
        (Inl e, s1) \<Rightarrow> (Inl e, s1)
      | (Inr vs, s1) \<Rightarrow>
          (case py_len (cparameters f) of
             Inl e \<Rightarrow> (Inl e, s1)
           | Inr n \<Rightarrow>
               if n \<noteq> length vs then (Inl (TypeError (Takes (cname f) n (length vs))), s1)
               else (case CLOSURES s1 (cid f) of
                       None \<Rightarrow> (Inl KeyError, s1)
                     | Some a \<Rightarrow> runlocal a (logic ev f vs) s1)))"

section \<open>Closables, templates and instances (datatypes.py)\<close>

text \<open>\<^verbatim>\<open>random.randint(0, 10**15)\<close>\<close>

definition draw :: "state \<Rightarrow> nat \<times> state" where
  "draw s = (randoms s (drawn s) mod (10 ^ 15 + 1), s\<lparr>drawn := Suc (drawn s)\<rparr>)"

text \<open>
  The text that \<^verbatim>\<open>f"{self.name}"\<close> formats a name to, as far as the model has it:
  \<^verbatim>\<open>None\<close>, an integer (decimal digits after an optional minus sign) and a boolean are
  formatted to the string that a name of type \<^verbatim>\<open>str\<close> may be as well, so that the
  names \<^verbatim>\<open>1\<close> and \<^verbatim>\<open>"1"\<close> give one identifier. The text of a float, of a list and of
  an object is outside the model: such a name stands for its own text.
\<close>

fun dec :: "nat \<Rightarrow> string" where
  "dec n = (if n < 10 then [char_of (48 + n)] else dec (n div 10) @ [char_of (48 + n mod 10)])"

definition id_name :: "pyval \<Rightarrow> pyval" where
  "id_name v =
     (case v of
        PNone \<Rightarrow> PStr ''None''
      | PInt i \<Rightarrow> PStr (if i < 0 then CHR ''-'' # dec (nat (- i)) else dec (nat i))
      | PBool b \<Rightarrow> PStr (if b then ''True'' else ''False'')
      | w \<Rightarrow> w)"

text \<open>\<^verbatim>\<open>x or []\<close>\<close>

definition or_empty :: "pyval \<Rightarrow> pyval" where
  "or_empty x = (if truthy x then x else PList [])"

text \<open>
  \<^verbatim>\<open>
  class Closable:
      def __init__(self, name, parameters=None, body=None):
          self.name = name
          self.parameters = parameters or []
          self.body = body or []
          self.id = self.generate_id()
          cf.config.CLOSURES[self.id] = env.Environment()
  \<close>
  The subclass sets \<^verbatim>\<open>self.type\<close> before it calls this constructor.
\<close>

definition Closable_init :: "kind \<Rightarrow> pyval \<Rightarrow> pyval \<Rightarrow> pyval \<Rightarrow> state \<Rightarrow> closable \<times> state" where
  "Closable_init k name parameters body s =
     (case draw s of
        (n, s1) \<Rightarrow>
          (case alloc env_empty s1 of
             (a, s2) \<Rightarrow>
               (Closable name (or_empty parameters) (or_empty body) k (n, k, id_name name),
                s2\<lparr>CLOSURES := (CLOSURES s2)((n, k, id_name name) \<mapsto> a)\<rparr>)))"

text \<open>
  \<^verbatim>\<open>Function(name, parameters, body, isMethod=True)\<close>: the type is \<^verbatim>\<open>method\<close>, so the
  renaming of lambdas does not apply.
\<close>

definition new_method :: "pyval \<Rightarrow> pyval \<Rightarrow> pyval \<Rightarrow> state \<Rightarrow> closable \<times> state" where
  "new_method name parameters body s = Closable_init KMethod name parameters body s"

text \<open>
  \<^verbatim>\<open>Function(*rest, isMethod=True)\<close>: one to three positional arguments are the name,
  the parameters and the body; none, or more than three, is a \<^verbatim>\<open>TypeError\<close> of the
  call.
\<close>

fun method_of_entry :: "pyval list \<Rightarrow> state \<Rightarrow> (error + closable) \<times> state" where
  "method_of_entry [name] s = (case new_method name PNone PNone s of (m, s1) \<Rightarrow> (Inr m, s1))"
| "method_of_entry [name, ps] s = (case new_method name ps PNone s of (m, s1) \<Rightarrow> (Inr m, s1))"
| "method_of_entry [name, ps, b] s = (case new_method name ps b s of (m, s1) \<Rightarrow> (Inr m, s1))"
| "method_of_entry rest s = (Inl (TypeError BadArguments), s)"

text \<open>
  A Python dict keeps its keys in the order of their first insertion; a later
  insertion under an equal key replaces the value and keeps the first key. Keys are
  compared with \<^verbatim>\<open>==\<close>, which identifies numbers of equal value across \<^verbatim>\<open>int\<close>,
  \<^verbatim>\<open>float\<close> and \<^verbatim>\<open>bool\<close>. A list is not hashable.
\<close>

fun num_val :: "pyval \<Rightarrow> rat option" where
  "num_val (PInt i) = Some (of_int i)"
| "num_val (PFloat q) = Some q"
| "num_val (PBool b) = Some (if b then 1 else 0)"
| "num_val v = None"

definition py_key_eq :: "pyval \<Rightarrow> pyval \<Rightarrow> bool" where
  "py_key_eq a b =
     (case (num_val a, num_val b) of
        (Some x, Some y) \<Rightarrow> x = y
      | (None, None) \<Rightarrow> a = b
      | _ \<Rightarrow> False)"

fun hashable :: "pyval \<Rightarrow> bool" where
  "hashable (PList xs) = False"
| "hashable v = True"

fun dict_put :: "(pyval \<times> pyval) list \<Rightarrow> pyval \<Rightarrow> pyval \<Rightarrow> (pyval \<times> pyval) list" where
  "dict_put [] k v = [(k, v)]"
| "dict_put ((k1, v1) # d) k v =
     (if py_key_eq k1 k then (k1, v) # d else (k1, v1) # dict_put d k v)"

text \<open>
  \<^verbatim>\<open>
  class Template(Closable):
      def __init__(self, name, parameters=None, body=None):
          self.type = "template"
          super().__init__(name, parameters, body)
          self.init = None
          methods = { e[1] : Function(*e[1:], isMethod=True) for e in self.body if e[0] == "func" }
          variables = { e[1] : e[2] for e in self.body if e[0] == "var" }
          for method in self.body:
              if method[0] == "init":
                  self.init = method[1:]
                  break
          cf.config.CLOSURES[self.id].match_arguments(variables.keys(), variables.values())
          cf.config.CLOSURES[self.id].match_arguments(methods.keys(), methods.values())
  \<close>
  In a dict comprehension the key expression is evaluated before the value expression,
  and the key is hashed when the pair is stored.
\<close>

fun collect_methods ::
  "pyval list \<Rightarrow> (pyval \<times> pyval) list \<Rightarrow> state \<Rightarrow> (error + (pyval \<times> pyval) list) \<times> state" where
  "collect_methods [] d s = (Inr d, s)"
| "collect_methods (e # es) d s =
     (case py_index e 0 of
        Inl er \<Rightarrow> (Inl er, s)
      | Inr t \<Rightarrow>
          if t = PStr ''func'' then
            (case py_index e 1 of
               Inl er \<Rightarrow> (Inl er, s)
             | Inr k \<Rightarrow>
                 (case py_slice_from e 1 of
                    Inl er \<Rightarrow> (Inl er, s)
                  | Inr sl \<Rightarrow>
                      (case py_iter sl of
                         Inl er \<Rightarrow> (Inl er, s)
                       | Inr rest \<Rightarrow>
                           (case method_of_entry rest s of
                              (Inl er, s1) \<Rightarrow> (Inl er, s1)
                            | (Inr m, s1) \<Rightarrow>
                                if hashable k then collect_methods es (dict_put d k (PFunction m)) s1
                                else (Inl (TypeError Unhashable), s1)))))
          else collect_methods es d s)"

fun collect_variables ::
  "pyval list \<Rightarrow> (pyval \<times> pyval) list \<Rightarrow> error + (pyval \<times> pyval) list" where
  "collect_variables [] d = Inr d"
| "collect_variables (e # es) d =
     (case py_index e 0 of
        Inl er \<Rightarrow> Inl er
      | Inr t \<Rightarrow>
          if t = PStr ''var'' then
            (case py_index e 1 of
               Inl er \<Rightarrow> Inl er
             | Inr k \<Rightarrow>
                 (case py_index e 2 of
                    Inl er \<Rightarrow> Inl er
                  | Inr v \<Rightarrow>
                      if hashable k then collect_variables es (dict_put d k v)
                      else Inl (TypeError Unhashable)))
          else collect_variables es d)"

fun find_init :: "pyval list \<Rightarrow> error + pyval" where
  "find_init [] = Inr PNone"
| "find_init (m # ms) =
     (case py_index m 0 of
        Inl er \<Rightarrow> Inl er
      | Inr t \<Rightarrow> if t = PStr ''init'' then py_slice_from m 1 else find_init ms)"

text \<open>\<^verbatim>\<open>cf.config.CLOSURES[i].match_arguments(names, values)\<close> on the registry.\<close>

definition bind_in_closure :: "ident \<Rightarrow> pyval \<Rightarrow> pyval \<Rightarrow> state \<Rightarrow> error + state" where
  "bind_in_closure i ns vs s =
     (case CLOSURES s i of
        None \<Rightarrow> Inl KeyError
      | Some a \<Rightarrow>
          (case match_arguments ns vs (heap s a) of
             Inl e \<Rightarrow> Inl e
           | Inr E \<Rightarrow> Inr (s\<lparr>heap := (heap s)(a := E)\<rparr>)))"

definition Template_init :: "pyval \<Rightarrow> pyval \<Rightarrow> pyval \<Rightarrow> state \<Rightarrow> (error + pyval) \<times> state" where
  "Template_init name parameters body s =
     (case Closable_init KTemplate name parameters body s of
        (c, s1) \<Rightarrow>
          (case py_iter (cbody c) of
             Inl e \<Rightarrow> (Inl e, s1)
           | Inr es \<Rightarrow>
               (case collect_methods es [] s1 of
                  (Inl e, s2) \<Rightarrow> (Inl e, s2)
                | (Inr methods, s2) \<Rightarrow>
                    (case collect_variables es [] of
                       Inl e \<Rightarrow> (Inl e, s2)
                     | Inr variables \<Rightarrow>
                         (case find_init es of
                            Inl e \<Rightarrow> (Inl e, s2)
                          | Inr init \<Rightarrow>
                              (case bind_in_closure (cid c) (PList (map fst variables))
                                      (PList (map snd variables)) s2 of
                                 Inl e \<Rightarrow> (Inl e, s2)
                               | Inr s3 \<Rightarrow>
                                   (case bind_in_closure (cid c) (PList (map fst methods))
                                           (PList (map snd methods)) s3 of
                                      Inl e \<Rightarrow> (Inl e, s3)
                                    | Inr s4 \<Rightarrow> (Inr (PTemplate c init), s4))))))))"

text \<open>
  \<^verbatim>\<open>
  class Instance(Closable):
      def __init__(self, name, parameters, args):
          self.type = "instance"
          super().__init__(name, parameters, args)
          cf.config.CLOSURES[self.id].match_arguments(self.parameters, args)
  \<close>
\<close>

definition Instance_init :: "pyval \<Rightarrow> pyval \<Rightarrow> pyval \<Rightarrow> state \<Rightarrow> (error + closable) \<times> state" where
  "Instance_init name parameters args s =
     (case Closable_init KInstance name parameters args s of
        (c, s1) \<Rightarrow>
          (case bind_in_closure (cid c) (cparameters c) args s1 of
             Inl e \<Rightarrow> (Inl e, s1)
           | Inr s2 \<Rightarrow> (Inr c, s2)))"

text \<open>
  \<^verbatim>\<open>
  def new(self, args):
      def logic(init):
          return kw.evlist(init)
      newInstance = Instance(self.name, self.parameters, args)
      cf.config.CLOSURES[newInstance.id].env += cf.config.CLOSURES[self.id].env
      self.init and cf.config.ENV.runClosed(cf.config.CLOSURES[newInstance.id], logic, self.init)
      return newInstance
  \<close>
  \<open>t\<close> and \<open>init\<close> are the template object and its \<^verbatim>\<open>self.init\<close>;
  \<open>inherit\<close> is the statement with \<^verbatim>\<open>+=\<close>, \<open>init_logic\<close> is \<^verbatim>\<open>logic\<close> and
  \<open>run_init\<close> the call of \<^verbatim>\<open>runClosed\<close>. The attribute \<^verbatim>\<open>env\<close> is the binding
  sequence of an Environment object: \<^verbatim>\<open>+=\<close> appends the (name, value) pairs of the
  template's sequence to the instance's own sequence, after the bindings that
  \<^verbatim>\<open>Instance.__init__\<close> has made.
\<close>

definition inherit :: "closable \<Rightarrow> closable \<Rightarrow> state \<Rightarrow> error + state" where
  "inherit t inst s =
     (case CLOSURES s (cid inst) of
        None \<Rightarrow> Inl KeyError
      | Some a \<Rightarrow>
          (case CLOSURES s (cid t) of
             None \<Rightarrow> Inl KeyError
           | Some ta \<Rightarrow> Inr (s\<lparr>heap := (heap s)(a := heap s a @ heap s ta)\<rparr>)))"

definition init_logic :: "evaluator \<Rightarrow> pyval \<Rightarrow> state \<Rightarrow> (error + pyval list) \<times> state" where
  "init_logic ev init s =
     (case py_iter init of Inl e \<Rightarrow> (Inl e, s) | Inr stmts \<Rightarrow> evlist ev stmts s)"

definition run_init :: "evaluator \<Rightarrow> closable \<Rightarrow> pyval \<Rightarrow> state \<Rightarrow> (error + pyval) \<times> state" where
  "run_init ev inst init s =
     (case CLOSURES s (cid inst) of
        None \<Rightarrow> (Inl KeyError, s)
      | Some a \<Rightarrow>
          (case runClosed a (init_logic ev init) s of
             (Inl e, s1) \<Rightarrow> (Inl e, s1)
           | (Inr vs, s1) \<Rightarrow> (Inr (PInstance inst), s1)))"

definition Template_new ::
  "evaluator \<Rightarrow> closable \<Rightarrow> pyval \<Rightarrow> pyval \<Rightarrow> state \<Rightarrow> (error + pyval) \<times> state" where
  "Template_new ev t init args s =
     (case Instance_init (cname t) (cparameters t) args s of
        (Inl e, s1) \<Rightarrow> (Inl e, s1)
      | (Inr inst, s1) \<Rightarrow>
          (case inherit t inst s1 of
             Inl e \<Rightarrow> (Inl e, s1)
           | Inr s2 \<Rightarrow>
               if truthy init then run_init ev inst init s2
               else (Inr (PInstance inst), s2)))"

section \<open>A state and evaluators for concrete runs\<close>

text \<open>
  The state of a fresh interpreter, and an evaluator of atoms: a symbol is looked up in
  the active environment, a list is no atom, every other atom is its own value. It
  never changes the state.
\<close>

definition init_state :: state where
  "init_state =
     \<lparr>ENV = [], CLOSURES = (\<lambda>i. None), heap = (\<lambda>a. []), nxt = 0,
      GLOBALS = (\<lambda>x. None), randoms = (\<lambda>n. n), drawn = 0\<rparr>"

definition atom_eval :: evaluator where
  "atom_eval e s =
     (case e of
        PStr x \<Rightarrow> (env_lookup (PStr x) (ENV s), s)
      | PList xs \<Rightarrow> (Inl NameError, s)
      | v \<Rightarrow> (Inr v, s))"

text \<open>
  An evaluator with calls of user functions, for concrete runs: a sequence whose head
  is bound to a Function in the active environment is a call of \<^verbatim>\<open>Function.eval\<close>
  with the remaining elements as argument expressions, or with the empty-call marker
  \<^verbatim>\<open>None\<close> when there are none; the arguments and the body of the called function are
  evaluated by \<open>ev\<close>. A head that is unbound or bound to another value fails with
  \<^verbatim>\<open>NameError\<close>. Every other expression is evaluated as an atom.
\<close>

definition call_eval :: "evaluator \<Rightarrow> evaluator" where
  "call_eval ev e s =
     (case e of
        PList (h # args) \<Rightarrow>
          (case env_lookup h (ENV s) of
             Inl er \<Rightarrow> (Inl er, s)
           | Inr (PFunction g) \<Rightarrow> Function_eval ev g (if args = [] then PNone else PList args) s
           | Inr v \<Rightarrow> (Inl NameError, s))
      | v \<Rightarrow> atom_eval v s)"

text \<open>
  \<^verbatim>\<open>
  def increment(x)   : return x + 1
  \<close>
  the builtin \<^verbatim>\<open>++\<close> of the table \<^verbatim>\<open>REGULAR\<close>, on the numbers of the model.
\<close>

fun increment :: "pyval \<Rightarrow> error + pyval" where
  "increment (PInt i) = Inr (PInt (i + 1))"
| "increment (PFloat q) = Inr (PFloat (q + 1))"
| "increment (PBool b) = Inr (PInt ((if b then 1 else 0) + 1))"
| "increment v = Inl (TypeError BadArguments)"

text \<open>
  An evaluator with assignments, for concrete runs: \<^verbatim>\<open>(set x e)\<close> evaluates \<open>e\<close> and
  calls \<^verbatim>\<open>Environment.set\<close> on the active environment; \<open>e\<close> is an atom or
  \<^verbatim>\<open>(++ a)\<close> with an atom \<open>a\<close>. Every other expression is evaluated as such a value.
\<close>

definition value_eval :: evaluator where
  "value_eval e s =
     (case e of
        PList [h, a] \<Rightarrow>
          if h = PStr ''++'' then
            (case atom_eval a s of
               (Inl er, s1) \<Rightarrow> (Inl er, s1)
             | (Inr w, s1) \<Rightarrow> (increment w, s1))
          else (Inl NameError, s)
      | v \<Rightarrow> atom_eval v s)"

definition set_eval :: evaluator where
  "set_eval e s =
     (case e of
        PList [h, x, v] \<Rightarrow>
          if h = PStr ''set'' then
            (case value_eval v s of
               (Inl er, s1) \<Rightarrow> (Inl er, s1)
             | (Inr w, s1) \<Rightarrow> (Inr PNone, s1\<lparr>ENV := env_set x w (ENV s1)\<rparr>))
          else (Inl NameError, s)
      | v \<Rightarrow> value_eval v s)"


section \<open>Concrete programs\<close>

text \<open>
  Closables for the runs below: a function \<^verbatim>\<open>f\<close> of one parameter \<^verbatim>\<open>n\<close> whose body is
  the symbol \<^verbatim>\<open>k\<close>, a lambda with the same parameter and body, and a function \<^verbatim>\<open>g\<close>
  without parameters whose body is the symbol \<^verbatim>\<open>n\<close>.
\<close>

definition fn_f :: closable where
  "fn_f = Closable (PStr ''f'') (PList [PStr ''n'']) (PStr ''k'') KFunction (1, KFunction, PStr ''f'')"

definition fn_lam :: closable where
  "fn_lam = Closable (PStr ''(n) k'') (PList [PStr ''n'']) (PStr ''k'') KLambda (2, KLambda, PStr ''lambda'')"

definition fn_g :: closable where
  "fn_g = Closable (PStr ''g'') (PList []) (PStr ''n'') KFunction (3, KFunction, PStr ''g'')"

text \<open>
  A state in which the three are registered with empty environments at the addresses
  0, 1 and 2, and the active environment binds \<^verbatim>\<open>k\<close> to the function \<^verbatim>\<open>g\<close>.
\<close>

definition run_state :: state where
  "run_state =
     init_state\<lparr>ENV := [(PStr ''k'', PFunction fn_g)],
                CLOSURES := [cid fn_f \<mapsto> 0, cid fn_lam \<mapsto> 1, cid fn_g \<mapsto> 2],
                nxt := 3\<rparr>"


text \<open>
  Two functions that call each other: \<^verbatim>\<open>f\<close> of the parameters \<^verbatim>\<open>a\<close> and \<^verbatim>\<open>b\<close> with the
  body \<^verbatim>\<open>(h a)\<close>, and \<^verbatim>\<open>h\<close> of the parameter \<^verbatim>\<open>x\<close> whose body is the symbol \<^verbatim>\<open>f\<close>, so
  that \<^verbatim>\<open>h\<close> returns the function \<^verbatim>\<open>f\<close>. In \<open>pair_state\<close> both are bound in the
  active environment and registered with empty environments.
\<close>

definition fn_outer :: closable where
  "fn_outer = Closable (PStr ''f'') (PList [PStr ''a'', PStr ''b'']) (PList [PStr ''h'', PStr ''a''])
      KFunction (4, KFunction, PStr ''f'')"

definition fn_inner :: closable where
  "fn_inner = Closable (PStr ''h'') (PList [PStr ''x'']) (PStr ''f'') KFunction (5, KFunction, PStr ''h'')"

definition pair_state :: state where
  "pair_state =
     init_state\<lparr>ENV := [(PStr ''f'', PFunction fn_outer), (PStr ''h'', PFunction fn_inner)],
                CLOSURES := [cid fn_outer \<mapsto> 0, cid fn_inner \<mapsto> 1],
                nxt := 2\<rparr>"

text \<open>
  A lambda of the parameter \<^verbatim>\<open>n\<close> with the body \<^verbatim>\<open>(h)\<close>, bound to the name \<^verbatim>\<open>L\<close>, and
  a function \<^verbatim>\<open>h\<close> without parameters whose body is the symbol \<^verbatim>\<open>L\<close>, so that \<^verbatim>\<open>h\<close>
  returns the lambda. In \<open>lam_state\<close> both are bound in the active environment and
  registered with empty environments.
\<close>

definition lam_outer :: closable where
  "lam_outer = Closable (PStr ''(n) (h)'') (PList [PStr ''n'']) (PList [PStr ''h''])
      KLambda (6, KLambda, PStr ''lambda'')"

definition fn_back :: closable where
  "fn_back = Closable (PStr ''h'') (PList []) (PStr ''L'') KFunction (8, KFunction, PStr ''h'')"

definition lam_state :: state where
  "lam_state =
     init_state\<lparr>ENV := [(PStr ''L'', PFunction lam_outer), (PStr ''h'', PFunction fn_back)],
                CLOSURES := [cid lam_outer \<mapsto> 0, cid fn_back \<mapsto> 1],
                nxt := 2\<rparr>"

text \<open>
  What \<^verbatim>\<open>Instance(self.name, self.parameters, args)\<close> makes in a state \<open>s\<close> for a
  template \<open>t\<close>: the identifier and the object, and the state once the new
  Environment object, at the address \<open>nxt s\<close>, holds the bindings \<open>E\<close>.
\<close>

definition instance_id :: "closable \<Rightarrow> state \<Rightarrow> ident" where
  "instance_id t s = (fst (draw s), KInstance, id_name (cname t))"

definition instance_object :: "closable \<Rightarrow> pyval \<Rightarrow> state \<Rightarrow> closable" where
  "instance_object t args s =
     Closable (cname t) (or_empty (cparameters t)) (or_empty args) KInstance (instance_id t s)"





text \<open>
  The template of the specification's example: \<^verbatim>\<open>Counter\<close> without constructor
  parameters, with the variable \<^verbatim>\<open>n = 0\<close> and the method \<^verbatim>\<open>inc\<close> whose body sets
  \<^verbatim>\<open>n\<close> to \<^verbatim>\<open>n + 1\<close>; the template object and the method that
  \<^verbatim>\<open>Template("Counter", None, body)\<close> makes of it in a fresh interpreter.
\<close>

definition counter_body :: pyval where
  "counter_body = PList
     [PList [PStr ''var'', PStr ''n'', PInt 0],
      PList [PStr ''func'', PStr ''inc'', PList [],
             PList [PStr ''set'', PStr ''n'', PList [PStr ''++'', PStr ''n'']]]]"

definition counter_inc :: closable where
  "counter_inc = Closable (PStr ''inc'') (PList [])
      (PList [PStr ''set'', PStr ''n'', PList [PStr ''++'', PStr ''n'']])
      KMethod (1, KMethod, PStr ''inc'')"

definition counter_tmpl :: closable where
  "counter_tmpl = Closable (PStr ''Counter'') (PList []) counter_body
      KTemplate (0, KTemplate, PStr ''Counter'')"

text \<open>
  \<^verbatim>\<open>e[0] == t\<close> for an entry \<open>e\<close> of a template body, and the field \<^verbatim>\<open>e[i]\<close> of an
  entry when it has one (a missing parameter list or body of a method is the default
  \<^verbatim>\<open>None\<close> of the constructor).
\<close>

definition tagged :: "string \<Rightarrow> pyval \<Rightarrow> bool" where
  "tagged t e = (py_index e 0 = Inr (PStr t))"

definition entry_field :: "pyval \<Rightarrow> nat \<Rightarrow> pyval" where
  "entry_field e i = (case py_index e i of Inr v \<Rightarrow> v | Inl er \<Rightarrow> PNone)"

text \<open>
  The keys of a dict are pairwise different under \<^verbatim>\<open>==\<close>: a name has one entry.
\<close>

fun distinct_keys :: "(pyval \<times> pyval) list \<Rightarrow> bool" where
  "distinct_keys [] = True"
| "distinct_keys ((k, v) # d) = (list_all (\<lambda>p. \<not> py_key_eq k (fst p)) d \<and> distinct_keys d)"

text \<open>
  A template body with a variable declared twice, a method and two init entries, the
  template object that \<^verbatim>\<open>Template("T", None, body)\<close> makes of it in a fresh
  interpreter, and its method.
\<close>

definition tmpl_body :: pyval where
  "tmpl_body = PList
     [PList [PStr ''var'', PStr ''x'', PInt 1],
      PList [PStr ''var'', PStr ''x'', PInt 2],
      PList [PStr ''func'', PStr ''inc'', PList [], PStr ''b''],
      PList [PStr ''init'', PStr ''a'', PStr ''b''],
      PList [PStr ''init'', PStr ''c'']]"

definition tmpl_method :: closable where
  "tmpl_method = Closable (PStr ''inc'') (PList []) (PStr ''b'') KMethod (1, KMethod, PStr ''inc'')"

definition tmpl_object :: closable where
  "tmpl_object = Closable (PStr ''T'') (PList []) tmpl_body KTemplate (0, KTemplate, PStr ''T'')"

section \<open>Instantiation: the scope of the init sequence\<close>








text \<open>
  \<^verbatim>\<open>
  def eval(self, method, args=None):
      def logic(method, args):
          return cf.config.ENV.lookup(method).eval(args)
      return cf.config.ENV.runClosed(cf.config.CLOSURES[self.id], logic, method, args)
  \<close>
  \<open>call_method\<close> is this call of \<^verbatim>\<open>Instance.eval\<close> when the lookup of the method
  name gives the Function \<open>m\<close>: \<^verbatim>\<open>m.eval(args)\<close> with the instance's closure
  environment as the borrowed scope.
\<close>

definition call_method ::
  "evaluator \<Rightarrow> closable \<Rightarrow> closable \<Rightarrow> pyval \<Rightarrow> state \<Rightarrow> (error + pyval) \<times> state" where
  "call_method ev inst m args s =
     (case CLOSURES s (cid inst) of
        None \<Rightarrow> (Inl KeyError, s)
      | Some a \<Rightarrow> runClosed a (Function_eval ev m args) s)"

text \<open>
  The run of the specification's example: the template \<^verbatim>\<open>Counter\<close> is constructed
  in a fresh interpreter, a first instance is made, its method \<^verbatim>\<open>inc\<close> is called
  twice, and a second instance is made.
\<close>

definition counter_made :: state where
  "counter_made = snd (Template_init (PStr ''Counter'') PNone counter_body init_state)"

definition counter_first :: closable where
  "counter_first = instance_object counter_tmpl (PList []) counter_made"

definition counter_one :: state where
  "counter_one = snd (Template_new set_eval counter_tmpl PNone (PList []) counter_made)"

definition counter_called :: state where
  "counter_called =
     snd (call_method set_eval counter_first counter_inc PNone
            (snd (call_method set_eval counter_first counter_inc PNone counter_one)))"

definition counter_two :: state where
  "counter_two = snd (Template_new set_eval counter_tmpl PNone (PList []) counter_called)"

section \<open>Properties\<close>

subsection \<open>car/cdr combinations\<close>

lemma evcxr_Nil: "evcxr [] v = Inr v"
  by simp



lemma head_list: "head (PList (x # xs)) = Inr x"
  by (simp add: head_def)

lemma head_empty: "head (PList []) = Inl (TypeError (Unsupported ''car'' (PList [])))"
  by (simp add: head_def)

lemma tail_list: "tail (PList xs) = Inr (PList (drop 1 xs))"
  by (simp add: tail_def)

lemma head_not_subscriptable:
  "(\<forall>xs. v \<noteq> PList xs) \<Longrightarrow> (\<forall>t. v \<noteq> PStr t) \<Longrightarrow> head v = Inl (TypeError (Unsupported ''car'' v))"
  by (cases v) (simp_all add: head_def)

lemma tail_not_subscriptable:
  "(\<forall>xs. v \<noteq> PList xs) \<Longrightarrow> (\<forall>t. v \<noteq> PStr t) \<Longrightarrow> tail v = Inl (TypeError (Unsupported ''cdr'' v))"
  by (cases v) (simp_all add: tail_def)

lemma evcxr_cadr_example: "evcxr ''ad'' (PList [PInt 1, PInt 2, PInt 3]) = Inr (PInt 2)"
  by (simp add: head_def tail_def)



text \<open>
  A string is a Python sequence: the accessors peel it character-wise, so that
  \<^verbatim>\<open>(car 'abc)\<close> is the string \<^verbatim>\<open>a\<close>.
\<close>

lemma evcxr_string_example: "evcxr ''a'' (PStr ''abc'') = Inr (PStr ''a'')"
  by (simp add: head_def)



subsection \<open>Quote abbreviations\<close>

lemma preprocess_quoted_list_example:
  "preprocess (TList [Tok [CHR 0x27], TList [Tok ''a'', Tok ''b'', Tok ''c'']]) =
     preprocess (TList [TList [Tok ''quote'', TList [Tok ''a'', Tok ''b'', Tok ''c'']]])"
  by (simp add: retype_def isnumber_def matches_number_def drop_sign_def is_digit_def)

lemma preprocess_quoted_number_example:
  "preprocess (TList [Tok [CHR 0x27], Tok ''5'']) = Inr (PList [PList [PStr ''quote'', PStr ''5'']]) \<and>
   preprocess (TList [TList [Tok ''quote'', Tok ''5'']]) = Inr (PList [PList [PStr ''quote'', PInt 5]])"
  by (simp add: retype_def isnumber_def matches_number_def drop_sign_def is_digit_def
      py_int_def strip_newline_def sign_of_def nat_of_digits_def digit_val_def)

text \<open>
  C8. A quote mark in front of a list is expanded to \<^verbatim>\<open>(quote ...)\<close>, recursively
  inside the list. The expression after a quote mark is taken to be the next element;
  when that element is itself a quote mark, as in \<^verbatim>\<open>(f ''x)\<close>, the mark is quoted as a
  symbol and the inner abbreviation is never expanded: the result is
  \<^verbatim>\<open>(f (quote ') x)\<close>, not \<^verbatim>\<open>(f (quote (quote x)))\<close>.
\<close>

theorem preprocess_nested_quote:
  "preprocess (TList [TList [Tok ''f'', Tok [CHR 0x27], Tok [CHR 0x27], Tok ''x'']]) =
     Inr (PList [PList [PStr ''f'', PList [PStr ''quote'', PStr [CHR 0x27]], PStr ''x'']])"
  by (simp add: retype_def isnumber_def matches_number_def drop_sign_def is_digit_def)

subsection \<open>The global store\<close>

text \<open>
  C9. When the value argument of \<^verbatim>\<open>global\<close> is falsy (as are \<^verbatim>\<open>0\<close>, \<^verbatim>\<open>#f\<close> and
  the empty list), the call leaves the state, and so the global store, as it was and
  returns what a read returns: the stored value of the variable, or the class
  \<^verbatim>\<open>ValueError\<close> itself, as a value and not as an error, when the name was never
  defined.
\<close>

theorem globals_falsy_reads:
  "\<not> truthy val \<Longrightarrow>
     snd (globals ev var val s) = s \<and>
     fst (globals ev var val s) =
       Inr (case GLOBALS s var of Some v \<Rightarrow> v | None \<Rightarrow> PValueErrorClass) \<and>
     (GLOBALS s var = None \<longrightarrow> fst (globals ev var val s) = Inr PValueErrorClass)"
  by (simp add: globals_def)

theorem globals_falsy_reads_witness:
  "\<not> truthy (PInt 0) \<and> \<not> truthy (PBool False) \<and> \<not> truthy (PList []) \<and>
   globals atom_eval ''x'' (PInt 0) init_state = (Inr PValueErrorClass, init_state) \<and>
   globals atom_eval ''x'' (PBool False) (init_state\<lparr>GLOBALS := [''x'' \<mapsto> PInt 7]\<rparr>)
     = (Inr (PInt 7), init_state\<lparr>GLOBALS := [''x'' \<mapsto> PInt 7]\<rparr>)"
  using globals_falsy_reads [of "PInt 0" atom_eval "''x''" init_state]
        globals_falsy_reads [of "PBool False" atom_eval "''x''"
                                "init_state\<lparr>GLOBALS := [''x'' \<mapsto> PInt 7]\<rparr>"]
  by (simp add: prod_eq_iff init_state_def)

subsection \<open>Conditionals without a true clause\<close>

text \<open>
  C10. When every clause of a \<^verbatim>\<open>cond\<close> has a condition that evaluates to a false
  value and no clause is headed by \<^verbatim>\<open>else\<close>, the recursion reaches the empty clause
  list: the call returns no value and raises Python's \<^verbatim>\<open>IndexError\<close>, which is none
  of the error kinds of the taxonomy.
\<close>

theorem cond_without_true_clause:
  "all_conditions_false ev cs s \<Longrightarrow>
     (\<exists>s1. cond ev cs s = (Inl IndexError, s1)) \<and> \<not> in_taxonomy IndexError"
proof (induction cs arbitrary: s)
  case Nil
  then show ?case by simp
next
  case (Cons c cs)
  then show ?case
    by (auto split: sum.splits prod.splits)
qed

theorem cond_without_true_clause_witness:
  "all_conditions_false atom_eval [PList [PBool False, PInt 1], PList [PInt 0, PInt 2]] init_state \<and>
   cond atom_eval [PList [PBool False, PInt 1], PList [PInt 0, PInt 2]] init_state
     = (Inl IndexError, init_state)"
  using cond_without_true_clause
          [of atom_eval "[PList [PBool False, PInt 1], PList [PInt 0, PInt 2]]" init_state]
  by (simp add: atom_eval_def)

subsection \<open>Environment operations\<close>

lemma map_of_overwrite_first_same:
  "n \<in> fst ` set E \<Longrightarrow> map_of (overwrite_first n v E) n = Some v"
  by (induction E) force+


lemma names_overwrite_first: "map fst (overwrite_first n v E) = map fst E"
  by (induction E) auto

lemma names_env_set:
  "map fst (env_set n v E) = (if n \<in> fst ` set E then map fst E else map fst E @ [n])"
  by (simp add: env_set_def names_overwrite_first rev_map [symmetric])

lemma lookup_env_set_same: "env_lookup n (env_set n v E) = Inr v"
  by (simp add: env_lookup_def env_set_def map_of_overwrite_first_same)


lemma map_of_rev_None: "map_of (rev E) x = None \<longleftrightarrow> x \<notin> fst ` set E"
  by (simp add: map_of_eq_None_iff)


lemma lookup_append_bound:
  "x \<in> fst ` set E1 \<Longrightarrow> env_lookup x (E0 @ E1) = env_lookup x E1"
proof -
  assume "x \<in> fst ` set E1"
  then have "map_of (rev E1) x \<noteq> None" by (simp add: map_of_rev_None)
  then obtain v where "map_of (rev E1) x = Some v" by blast
  then have "map_of (rev (E0 @ E1)) x = map_of (rev E1) x"
    by (simp add: map_add_def)
  then show ?thesis by (simp only: env_lookup_def)
qed

lemma lookup_bound_iff: "(\<exists>v. env_lookup x E = Inr v) \<longleftrightarrow> x \<in> fst ` set E"
proof (cases "map_of (rev E) x")
  case None
  then show ?thesis using map_of_rev_None [of E x] by (simp add: env_lookup_def)
next
  case (Some v)
  then show ?thesis using map_of_rev_None [of E x] by (simp add: env_lookup_def)
qed

lemma names_remove_first: "map fst (remove_first n E) = remove1 n (map fst E)"
  by (induction E) auto

lemma names_env_delete: "map fst (env_delete n E) = rev (remove1 n (rev (map fst E)))"
  by (simp add: env_delete_def names_remove_first rev_map [symmetric])

lemma names_env_delete_last:
  "map fst E = N @ [n] \<Longrightarrow> map fst (env_delete n E) = N"
  by (simp add: names_env_delete)


subsection \<open>Function calls: the arity check\<close>

text \<open>
  C2, as amended. When the arguments have been evaluated and their number differs from
  the number of declared parameters, the call fails with Python's \<^verbatim>\<open>TypeError\<close> (not
  with an \<^verbatim>\<open>ArityError\<close>), whose message names the function, the expected and the
  actual count. The state is the one the evaluation of the arguments left: no
  parameter is bound, \<^verbatim>\<open>self\<close> is not bound and the active environment is not
  extended.
\<close>

theorem Function_eval_arity_mismatch:
  "eval_args ev args s = (Inr vs, s1) \<Longrightarrow> py_len (cparameters f) = Inr n \<Longrightarrow> n \<noteq> length vs \<Longrightarrow>
   Function_eval ev f args s = (Inl (TypeError (Takes (cname f) n (length vs))), s1)"
  by (simp add: Function_eval_def)

theorem Function_eval_arity_mismatch_witness:
  "eval_args atom_eval (PList [PInt 1, PInt 2]) run_state = (Inr [PInt 1, PInt 2], run_state) \<and>
   py_len (cparameters fn_f) = Inr 1 \<and> (1::nat) \<noteq> length [PInt 1, PInt 2] \<and>
   Function_eval atom_eval fn_f (PList [PInt 1, PInt 2]) run_state
     = (Inl (TypeError (Takes (PStr ''f'') 1 2)), run_state)"
  using Function_eval_arity_mismatch
          [of atom_eval "PList [PInt 1, PInt 2]" run_state "[PInt 1, PInt 2]" run_state fn_f 1]
  by (simp add: eval_args_def atom_eval_def fn_f_def)

theorem Function_eval_arity_counterexample:
  "fst (Function_eval atom_eval fn_f PNone run_state) = Inl (TypeError (Takes (PStr ''f'') 1 0)) \<and>
   fst (Function_eval atom_eval fn_f PNone run_state) \<noteq> Inl ArityError"
  by (simp add: Function_eval_def eval_args_def fn_f_def)

subsection \<open>Function calls: the unwind\<close>

lemma enter_call_Inr:
  "enter_call f vs s = Inr s2 \<Longrightarrow>
     \<exists>a E1. CLOSURES s (cid f) = Some a \<and> call_bindings f vs (heap s a) = Inr E1 \<and>
            s2 = s\<lparr>heap := (heap s)(a := E1), ENV := ENV s @ E1\<rparr>"
  by (auto simp: enter_call_def env_extend_def split: option.splits sum.splits)

lemma capture_closure_frame:
  assumes "CLOSURES s (cid f) = Some b" and "capture_closure f (r, s) = (r1, s1)"
  shows "ENV s1 = ENV s \<and> (\<exists>c. CLOSURES s1 (cid f) = Some c \<and> heap s1 c = heap s b)"
proof (cases "\<exists>g. r = Inr (PFunction g)")
  case True
  then obtain g where "r = Inr (PFunction g)" by blast
  with assms show ?thesis
    by (auto simp: capture_closure_def alloc_def env_clone_def)
next
  case False
  with assms have "s1 = s"
    by (auto simp: capture_closure_def split: sum.splits pyval.splits)
  with assms show ?thesis by simp
qed

lemma unwind_call_ENV:
  "CLOSURES s (cid f) = Some c \<Longrightarrow>
     ENV (snd (unwind_call f (r, s))) = take (length (ENV s) - length (heap s c)) (ENV s)"
  by (simp add: unwind_call_def env_end_scope_def env_len_def Let_def)

lemma runlocal_ENV: "ENV (snd (runlocal a lg s)) = ENV (snd (lg s))"
  by (simp add: runlocal_def Let_def split: prod.splits)

lemma call_bindings_names:
  assumes cb: "call_bindings f vs E0 = Inr E1" and ns: "py_iter (cparameters f) = Inr ns"
    and E0: "PStr ''self'' \<notin> set (map fst E0)" and nself: "PStr ''self'' \<notin> set ns"
  shows "map fst E1 = map fst E0 @ ns @ (if binds_self f then [PStr ''self''] else [])"
proof -
  from cb ns have len: "length ns = length vs"
    by (auto simp: call_bindings_def match_arguments_def split: sum.splits if_splits)
  define E where "E = E0 @ zip ns vs"
  have nE: "map fst E = map fst E0 @ ns" using len by (simp add: E_def)
  have notin: "PStr ''self'' \<notin> fst ` set E"
    using E0 nself nE by (metis set_append set_map Un_iff)
  have E1: "E1 = (if binds_self f then env_define (PStr ''self'') (cparameters f) (cbody f) E else E)"
    using cb ns len by (auto simp: call_bindings_def match_arguments_def E_def)
  show ?thesis
  proof (cases "binds_self f")
    case True
    with E1 notin nE show ?thesis by (simp add: env_define_def names_env_set)
  next
    case False
    with E1 nE show ?thesis by simp
  qed
qed


lemma Function_eval_body_state:
  assumes args: "eval_args ev args s = (Inr vs, s1)"
    and len: "py_len (cparameters f) = Inr (length vs)"
    and own: "CLOSURES s1 (cid f) = Some a"
    and enter: "enter_call f vs s1 = Inr s2"
  shows "Function_eval ev f args s =
           runlocal a (\<lambda>s'. unwind_call f (capture_closure f (ev (cbody f) s2))) s1"
  using assms by (simp add: Function_eval_def runlocal_def logic_def)

lemma Function_eval_unwind_count:
  assumes args: "eval_args ev args s = (Inr vs, s1)"
    and len: "py_len (cparameters f) = Inr (length vs)"
    and own: "CLOSURES s1 (cid f) = Some a"
    and enter: "enter_call f vs s1 = Inr s2"
    and cap: "capture_closure f (ev (cbody f) s2) = (r, s4)"
    and cur: "CLOSURES s4 (cid f) = Some c"
  shows "ENV (snd (Function_eval ev f args s)) =
           take (length (ENV s4) - length (heap s4 c)) (ENV s4)"
proof -
  have "ENV (snd (Function_eval ev f args s)) = ENV (snd (unwind_call f (r, s4)))"
    unfolding Function_eval_body_state [OF args len own enter] runlocal_ENV cap ..
  then show ?thesis using unwind_call_ENV [OF cur] by simp
qed

lemma Function_eval_count_restored:
  assumes args: "eval_args ev args s = (Inr vs, s1)"
    and len: "py_len (cparameters f) = Inr (length vs)"
    and own: "CLOSURES s1 (cid f) = Some a"
    and enter: "enter_call f vs s1 = Inr s2"
    and cap: "capture_closure f (ev (cbody f) s2) = (r, s4)"
    and cur: "CLOSURES s4 (cid f) = Some c"
    and env: "length (ENV s4) = length (ENV s2)"
    and clo: "length (heap s4 c) = length (heap s2 a)"
  shows "length (ENV (snd (Function_eval ev f args s))) = length (ENV s1)"
proof -
  from enter_call_Inr [OF enter] own obtain E1 where
    s2: "s2 = s1\<lparr>heap := (heap s1)(a := E1), ENV := ENV s1 @ E1\<rparr>" by auto
  have "length (ENV s2) = length (ENV s1) + length (heap s2 a)" by (simp add: s2)
  then show ?thesis
    unfolding Function_eval_unwind_count [OF args len own enter cap cur]
    using env clo by simp
qed

lemmas call_defs = call_eval_def Function_eval_def eval_args_def runlocal_def logic_def
  enter_call_def call_bindings_def match_arguments_def env_define_def env_set_def
  env_extend_def env_end_scope_def env_len_def env_delete_def env_lookup_def env_clone_def
  alloc_def capture_closure_def unwind_call_def binds_self_def atom_eval_def init_state_def
  Let_def

text \<open>
  C1. On every exit the \<^verbatim>\<open>finally\<close> block removes from the active environment as
  many bindings as the function's registry entry holds at that moment
  (\<open>Function_eval_unwind_count\<close>). That is the number of bindings added for the call
  as long as the evaluation of the body leaves the count of the entry as it was
  (\<open>Function_eval_count_restored\<close>), but a call inside the body that returns the
  running function replaces the entry by a copy of another closure. With \<^verbatim>\<open>f\<close> of
  the parameters \<^verbatim>\<open>a\<close> and \<^verbatim>\<open>b\<close> and the body \<^verbatim>\<open>(h a)\<close>, and \<^verbatim>\<open>h\<close> of the
  parameter \<^verbatim>\<open>x\<close> returning \<^verbatim>\<open>f\<close>, the call \<^verbatim>\<open>(f 1 2)\<close> returns normally, two
  bindings were added for it and one is removed: the binding of \<^verbatim>\<open>a\<close> stays in the
  active environment, which has three bindings after the call and had two before.
\<close>

theorem Function_eval_leaks_binding:
  "length (ENV pair_state) = 2 \<and>
   fst (Function_eval (call_eval atom_eval) fn_outer (PList [PInt 1, PInt 2]) pair_state)
     = Inr (PFunction fn_outer) \<and>
   ENV (snd (Function_eval (call_eval atom_eval) fn_outer (PList [PInt 1, PInt 2]) pair_state))
     = ENV pair_state @ [(PStr ''a'', PInt 1)] \<and>
   length (ENV (snd (Function_eval (call_eval atom_eval) fn_outer (PList [PInt 1, PInt 2])
                       pair_state))) = 3"
  by (simp add: call_defs pair_state_def fn_outer_def fn_inner_def)

subsection \<open>Function calls: the name self\<close>

lemma lookup_unbound_iff: "env_lookup x E = Inl NameError \<longleftrightarrow> x \<notin> fst ` set E"
  using map_of_rev_None [of E x] by (auto simp: env_lookup_def split: option.splits)

lemma call_bindings_self:
  assumes "binds_self f" and "call_bindings f vs E0 = Inr E1"
  shows "env_lookup (PStr ''self'') E1 = Inr (PProc (cparameters f) (cbody f))"
  using assms
  by (auto simp: call_bindings_def env_define_def lookup_env_set_same split: sum.splits)

lemma call_bindings_plain:
  assumes "\<not> binds_self f" and "call_bindings f vs E0 = Inr E1"
    and "py_iter (cparameters f) = Inr ns"
  shows "E1 = E0 @ zip ns vs"
  using assms
  by (auto simp: call_bindings_def match_arguments_def split: sum.splits if_splits)

lemma enter_call_binds_self:
  assumes bs: "binds_self f" and en: "enter_call f vs s = Inr s2"
    and a: "CLOSURES s (cid f) = Some a"
  shows "env_lookup (PStr ''self'') (heap s2 a) = Inr (PProc (cparameters f) (cbody f)) \<and>
         env_lookup (PStr ''self'') (ENV s2) = Inr (PProc (cparameters f) (cbody f))"
proof -
  from enter_call_Inr [OF en] a obtain E1 where
    cb: "call_bindings f vs (heap s a) = Inr E1" and
    s2: "s2 = s\<lparr>heap := (heap s)(a := E1), ENV := ENV s @ E1\<rparr>" by auto
  have l: "env_lookup (PStr ''self'') E1 = Inr (PProc (cparameters f) (cbody f))"
    using call_bindings_self [OF bs cb] .
  then have "PStr ''self'' \<in> fst ` set E1" using lookup_bound_iff by blast
  from lookup_append_bound [OF this] l s2 show ?thesis by simp
qed

lemma enter_call_plain:
  assumes k: "ctype f = KFunction \<or> ctype f = KMethod" and en: "enter_call f vs s = Inr s2"
    and a: "CLOSURES s (cid f) = Some a" and ns: "py_iter (cparameters f) = Inr ns"
  shows "heap s2 a = heap s a @ zip ns vs \<and> ENV s2 = ENV s @ heap s a @ zip ns vs"
proof -
  from k have nb: "\<not> binds_self f" by (auto simp: binds_self_def)
  from enter_call_Inr [OF en] a obtain E1 where
    cb: "call_bindings f vs (heap s a) = Inr E1" and
    s2: "s2 = s\<lparr>heap := (heap s)(a := E1), ENV := ENV s @ E1\<rparr>" by auto
  from call_bindings_plain [OF nb cb ns] s2 show ?thesis by simp
qed


lemma py_len_iter: "py_len p = Inr n \<Longrightarrow> \<exists>ns. py_iter p = Inr ns \<and> length ns = n"
  by (cases p) auto

lemma enter_call_succeeds:
  assumes len: "py_len (cparameters f) = Inr (length vs)" and own: "CLOSURES s (cid f) = Some a"
  shows "\<exists>s2. enter_call f vs s = Inr s2"
proof -
  from py_len_iter [OF len] obtain ns where "py_iter (cparameters f) = Inr ns" "length ns = length vs"
    by blast
  then show ?thesis using own
    by (simp add: enter_call_def call_bindings_def match_arguments_def)
qed

lemma Function_eval_binds_self:
  assumes args: "eval_args ev args s = (Inr vs, s1)"
    and len: "py_len (cparameters f) = Inr (length vs)"
    and own: "CLOSURES s1 (cid f) = Some a"
    and bs: "binds_self f"
  shows "\<exists>s2. enter_call f vs s1 = Inr s2 \<and>
           env_lookup (PStr ''self'') (heap s2 a) = Inr (PProc (cparameters f) (cbody f)) \<and>
           env_lookup (PStr ''self'') (ENV s2) = Inr (PProc (cparameters f) (cbody f)) \<and>
           Function_eval ev f args s =
             runlocal a (\<lambda>s'. unwind_call f (capture_closure f (ev (cbody f) s2))) s1"
proof -
  from enter_call_succeeds [OF len own] obtain s2 where en: "enter_call f vs s1 = Inr s2" by blast
  from enter_call_binds_self [OF bs en own] Function_eval_body_state [OF args len own en] en
  show ?thesis by blast
qed

text \<open>
  C4. A call of a function of kind \<^verbatim>\<open>lambda\<close> or \<^verbatim>\<open>self\<close> evaluates the body in a
  state in which \<^verbatim>\<open>self\<close> is bound, in the function's own environment and in the
  active one, to the function's parameter list and body
  (\<open>Function_eval_binds_self\<close>); a call of a function of kind \<^verbatim>\<open>function\<close> or
  \<^verbatim>\<open>method\<close> adds the parameter bindings only (\<open>enter_call_plain\<close>). After the
  call, however, \<^verbatim>\<open>self\<close> can still be bound in the enclosing scope: the binding
  leaves the active environment with the bindings of the call, which are removed by
  the count of the registry entry at exit. With the lambda \<^verbatim>\<open>L\<close> of the parameter
  \<^verbatim>\<open>n\<close> and the body \<^verbatim>\<open>(h)\<close>, and \<^verbatim>\<open>h\<close> without parameters returning \<^verbatim>\<open>L\<close>, the
  call \<^verbatim>\<open>(L 5)\<close> returns normally and nothing is removed: \<^verbatim>\<open>self\<close>, unbound in the
  active environment before the call, is bound in it to the lambda's parameter list
  and body afterwards.
\<close>

theorem lambda_call_leaves_self_bound:
  "env_lookup (PStr ''self'') (ENV lam_state) = Inl NameError \<and>
   fst (Function_eval (call_eval atom_eval) lam_outer (PList [PInt 5]) lam_state)
     = Inr (PFunction lam_outer) \<and>
   ENV (snd (Function_eval (call_eval atom_eval) lam_outer (PList [PInt 5]) lam_state))
     = ENV lam_state @
         [(PStr ''n'', PInt 5), (PStr ''self'', PProc (PList [PStr ''n'']) (PList [PStr ''h'']))] \<and>
   env_lookup (PStr ''self'')
     (ENV (snd (Function_eval (call_eval atom_eval) lam_outer (PList [PInt 5]) lam_state)))
     = Inr (PProc (PList [PStr ''n'']) (PList [PStr ''h'']))"
  by (simp add: call_eval_def Function_eval_def eval_args_def runlocal_def logic_def
      enter_call_def call_bindings_def match_arguments_def env_define_def env_set_def
      env_extend_def env_end_scope_def env_len_def env_delete_def env_lookup_def env_clone_def
      alloc_def capture_closure_def unwind_call_def binds_self_def atom_eval_def init_state_def
      Let_def lam_state_def lam_outer_def fn_back_def)

subsection \<open>Function calls: returned functions\<close>






subsection \<open>Instantiation\<close>











lemma evlist_append:
  "evlist ev (xs @ ys) s =
     (case evlist ev xs s of
        (Inl e, s1) \<Rightarrow> (Inl e, s1)
      | (Inr vs, s1) \<Rightarrow>
          (case evlist ev ys s1 of
             (Inl e, s2) \<Rightarrow> (Inl e, s2)
           | (Inr ws, s2) \<Rightarrow> (Inr (vs @ ws), s2)))"
  by (induction xs arbitrary: s) (auto split: prod.splits sum.splits)








text \<open>
  The example of the specification: after \<^verbatim>\<open>new()\<close> and two calls of \<^verbatim>\<open>inc\<close> the
  variable \<^verbatim>\<open>n\<close> of the instance is 2, while a second fresh instance has \<^verbatim>\<open>n = 0\<close>,
  as the template has.
\<close>

lemma counter_template:
  "Template_init (PStr ''Counter'') PNone counter_body init_state
     = (Inr (PTemplate counter_tmpl PNone), counter_made) \<and>
   heap counter_made 0 = [(PStr ''n'', PInt 0), (PStr ''inc'', PFunction counter_inc)] \<and>
   CLOSURES counter_made (cid counter_tmpl) = Some 0 \<and>
   CLOSURES counter_made (cid counter_inc) = Some 1 \<and> nxt counter_made = 2"
  by (simp add: counter_made_def Template_init_def Closable_init_def new_method_def draw_def
      alloc_def env_empty_def or_empty_def bind_in_closure_def match_arguments_def py_key_eq_def
      id_name_def counter_body_def counter_inc_def counter_tmpl_def init_state_def Let_def)

lemma counter_instances:
  "fst (Template_new set_eval counter_tmpl PNone (PList []) counter_made)
     = Inr (PInstance counter_first) \<and>
   CLOSURES counter_one (cid counter_first) = Some 2 \<and>
   env_lookup (PStr ''n'') (heap counter_one 2) = Inr (PInt 0) \<and>
   env_lookup (PStr ''inc'') (heap counter_one 2) = Inr (PFunction counter_inc) \<and>
   env_lookup (PStr ''n'') (heap counter_called 2) = Inr (PInt 2) \<and>
   ENV counter_called = ENV counter_one \<and>
   CLOSURES counter_two (cid (instance_object counter_tmpl (PList []) counter_called)) = Some 3 \<and>
   env_lookup (PStr ''n'') (heap counter_two 3) = Inr (PInt 0) \<and>
   env_lookup (PStr ''n'') (heap counter_two 2) = Inr (PInt 2) \<and>
   env_lookup (PStr ''n'') (heap counter_two 0) = Inr (PInt 0)"
  by (simp add: counter_made_def counter_first_def counter_one_def counter_called_def
      counter_two_def call_method_def Template_init_def Template_new_def Instance_init_def
      inherit_def Closable_init_def new_method_def draw_def alloc_def env_empty_def or_empty_def
      bind_in_closure_def match_arguments_def py_key_eq_def id_name_def counter_body_def
      counter_inc_def counter_tmpl_def init_state_def runClosed_def set_eval_def value_eval_def
      Function_eval_def eval_args_def runlocal_def logic_def enter_call_def call_bindings_def
      env_define_def env_set_def env_extend_def env_end_scope_def env_len_def env_delete_def
      env_lookup_def env_clone_def capture_closure_def unwind_call_def binds_self_def
      atom_eval_def instance_object_def instance_id_def Let_def)

subsection \<open>Template construction\<close>

lemma py_key_eq_refl: "py_key_eq k k"
  by (simp add: py_key_eq_def split: option.splits)

lemma py_key_eq_sym: "py_key_eq a b \<Longrightarrow> py_key_eq b a"
  by (auto simp: py_key_eq_def split: option.splits)

lemma py_key_eq_trans: "py_key_eq a b \<Longrightarrow> py_key_eq b c \<Longrightarrow> py_key_eq a c"
  by (auto simp: py_key_eq_def split: option.splits)

lemma dict_put_has: "\<exists>k0. py_key_eq k0 k \<and> (k0, v) \<in> set (dict_put d k v)"
proof (induction d)
  case Nil
  then show ?case using py_key_eq_refl by auto
next
  case (Cons p d)
  obtain k1 v1 where p: "p = (k1, v1)" by (cases p)
  show ?case
  proof (cases "py_key_eq k1 k")
    case True
    with p show ?thesis by auto
  next
    case False
    with p Cons.IH show ?thesis by auto
  qed
qed

lemma dict_put_keeps:
  "(k0, v0) \<in> set d \<Longrightarrow> \<not> py_key_eq k0 k \<Longrightarrow> (k0, v0) \<in> set (dict_put d k v)"
  by (induction d) auto

lemma dict_put_origin:
  "(k0, v0) \<in> set (dict_put d k v) \<Longrightarrow>
     (k0, v0) \<in> set d \<or> (v0 = v \<and> (k0 = k \<or> k0 \<in> fst ` set d))"
  by (induction d) (auto split: if_splits)

lemma tagged_list:
  "tagged t e \<Longrightarrow> 1 < length t \<Longrightarrow> \<exists>xs. e = PList xs \<and> xs \<noteq> [] \<and> hd xs = PStr t"
  by (cases e) (auto simp: tagged_def hd_conv_nth split: if_splits)

lemma collect_variables_append:
  "collect_variables (xs @ ys) d =
     (case collect_variables xs d of Inl er \<Rightarrow> Inl er | Inr d1 \<Rightarrow> collect_variables ys d1)"
  by (induction xs arbitrary: d) (auto split: sum.splits)

lemma collect_variables_step:
  assumes "tagged ''var'' e" and "py_index e 1 = Inr k" and "py_index e 2 = Inr v"
  shows "collect_variables (e # es) d =
           (if hashable k then collect_variables es (dict_put d k v)
            else Inl (TypeError Unhashable))"
  using assms by (simp add: tagged_def)

lemma collect_variables_keeps:
  assumes "collect_variables post d = Inr d1" and "(k0, v) \<in> set d"
    and "\<forall>e\<in>set post. tagged ''var'' e \<longrightarrow> (\<forall>k1. py_index e 1 = Inr k1 \<longrightarrow> \<not> py_key_eq k0 k1)"
  shows "(k0, v) \<in> set d1"
  using assms
proof (induction post arbitrary: d)
  case Nil
  then show ?case by simp
next
  case (Cons e post)
  show ?case
  proof (cases "tagged ''var'' e")
    case True
    with Cons.prems(1) obtain k1 v1 where
      kv: "py_index e 1 = Inr k1" "py_index e 2 = Inr v1" and
      rest: "collect_variables post (dict_put d k1 v1) = Inr d1"
      by (auto simp: tagged_def split: sum.splits if_splits)
    from Cons.prems(3) True kv(1) have "\<not> py_key_eq k0 k1" by simp
    from dict_put_keeps [OF Cons.prems(2) this]
    have "(k0, v) \<in> set (dict_put d k1 v1)" .
    from Cons.IH [OF rest this] Cons.prems(3) show ?thesis by simp
  next
    case False
    with Cons.prems(1) have rest: "collect_variables post d = Inr d1"
      by (auto simp: tagged_def split: sum.splits if_splits)
    from Cons.IH [OF rest Cons.prems(2)] Cons.prems(3) show ?thesis by simp
  qed
qed

lemma collect_variables_binds:
  assumes ok: "collect_variables (pre @ e # post) d = Inr d1"
    and e: "tagged ''var'' e" "py_index e 1 = Inr k" "py_index e 2 = Inr v"
    and later: "\<forall>e1\<in>set post. tagged ''var'' e1 \<longrightarrow> (\<forall>k1. py_index e1 1 = Inr k1 \<longrightarrow> \<not> py_key_eq k1 k)"
  shows "\<exists>k0. py_key_eq k0 k \<and> (k0, v) \<in> set d1"
proof -
  from ok obtain d2 where pre: "collect_variables pre d = Inr d2"
    and rest: "collect_variables (e # post) d2 = Inr d1"
    by (auto simp: collect_variables_append split: sum.splits)
  have "(if hashable k then collect_variables post (dict_put d2 k v)
         else Inl (TypeError Unhashable)) = Inr d1"
    using rest collect_variables_step [OF e, of post d2] by metis
  then have post: "collect_variables post (dict_put d2 k v) = Inr d1"
    by (cases "hashable k") simp_all
  from dict_put_has obtain k0 where k0: "py_key_eq k0 k" "(k0, v) \<in> set (dict_put d2 k v)"
    by blast
  have "\<forall>e1\<in>set post. tagged ''var'' e1 \<longrightarrow> (\<forall>k1. py_index e1 1 = Inr k1 \<longrightarrow> \<not> py_key_eq k0 k1)"
    using later k0(1) py_key_eq_sym py_key_eq_trans by blast
  from collect_variables_keeps [OF post k0(2) this] k0(1) show ?thesis by blast
qed

lemma dict_put_keys: "fst ` set (dict_put d k v) \<subseteq> insert k (fst ` set d)"
proof
  fix k0 assume "k0 \<in> fst ` set (dict_put d k v)"
  then obtain v0 where "(k0, v0) \<in> set (dict_put d k v)" by auto
  from dict_put_origin [OF this] show "k0 \<in> insert k (fst ` set d)"
    by (auto intro: rev_image_eqI)
qed

lemma dict_put_values: "snd ` set (dict_put d k v) \<subseteq> insert v (snd ` set d)"
proof
  fix v0 assume "v0 \<in> snd ` set (dict_put d k v)"
  then obtain k0 where "(k0, v0) \<in> set (dict_put d k v)" by auto
  from dict_put_origin [OF this] show "v0 \<in> insert v (snd ` set d)"
    by (auto intro: rev_image_eqI)
qed

lemma collect_variables_keys:
  assumes "collect_variables es d = Inr d1" and "k0 \<in> fst ` set d1"
  shows "k0 \<in> fst ` set d \<or> (\<exists>e\<in>set es. tagged ''var'' e \<and> py_index e 1 = Inr k0)"
  using assms
proof (induction es arbitrary: d)
  case Nil
  then show ?case by simp
next
  case (Cons e es)
  show ?case
  proof (cases "tagged ''var'' e")
    case True
    with Cons.prems(1) obtain k1 v1 where
      kv: "py_index e 1 = Inr k1" and
      rest: "collect_variables es (dict_put d k1 v1) = Inr d1"
      by (auto simp: tagged_def split: sum.splits if_splits)
    from Cons.IH [OF rest Cons.prems(2)]
    have "k0 \<in> fst ` set (dict_put d k1 v1) \<or>
          (\<exists>x\<in>set es. tagged ''var'' x \<and> py_index x 1 = Inr k0)" .
    moreover have "k0 \<in> fst ` set (dict_put d k1 v1) \<Longrightarrow> k0 = k1 \<or> k0 \<in> fst ` set d"
      using dict_put_keys [of d k1 v1] by blast
    moreover have "tagged ''var'' e \<and> py_index e 1 = Inr k1" using True kv by simp
    ultimately show ?thesis by (metis list.set_intros(1) list.set_intros(2))
  next
    case False
    with Cons.prems(1) have rest: "collect_variables es d = Inr d1"
      by (auto simp: tagged_def split: sum.splits if_splits)
    from Cons.IH [OF rest Cons.prems(2)] show ?thesis
      by (metis list.set_intros(2))
  qed
qed

lemma collect_variables_values:
  assumes "collect_variables es d = Inr d1" and "v0 \<in> snd ` set d1"
  shows "v0 \<in> snd ` set d \<or> (\<exists>e\<in>set es. tagged ''var'' e \<and> py_index e 2 = Inr v0)"
  using assms
proof (induction es arbitrary: d)
  case Nil
  then show ?case by simp
next
  case (Cons e es)
  show ?case
  proof (cases "tagged ''var'' e")
    case True
    with Cons.prems(1) obtain k1 v1 where
      kv: "py_index e 2 = Inr v1" and
      rest: "collect_variables es (dict_put d k1 v1) = Inr d1"
      by (auto simp: tagged_def split: sum.splits if_splits)
    from Cons.IH [OF rest Cons.prems(2)]
    have "v0 \<in> snd ` set (dict_put d k1 v1) \<or>
          (\<exists>x\<in>set es. tagged ''var'' x \<and> py_index x 2 = Inr v0)" .
    moreover have "v0 \<in> snd ` set (dict_put d k1 v1) \<Longrightarrow> v0 = v1 \<or> v0 \<in> snd ` set d"
      using dict_put_values [of d k1 v1] by blast
    moreover have "tagged ''var'' e \<and> py_index e 2 = Inr v1" using True kv by simp
    ultimately show ?thesis by (metis list.set_intros(1) list.set_intros(2))
  next
    case False
    with Cons.prems(1) have rest: "collect_variables es d = Inr d1"
      by (auto simp: tagged_def split: sum.splits if_splits)
    from Cons.IH [OF rest Cons.prems(2)] show ?thesis
      by (metis list.set_intros(2))
  qed
qed

lemma new_method_result:
  "new_method nm ps b s = (m, s1) \<Longrightarrow>
     ctype m = KMethod \<and> cname m = nm \<and> cparameters m = or_empty ps \<and> cbody m = or_empty b \<and>
     fst (snd (cid m)) = KMethod \<and>
     s1 = s\<lparr>drawn := Suc (drawn s), heap := (heap s)(nxt s := []), nxt := Suc (nxt s),
            CLOSURES := (CLOSURES s)(cid m \<mapsto> nxt s)\<rparr>"
  by (auto simp: new_method_def Closable_init_def draw_def alloc_def env_empty_def)

lemma method_of_entry_result:
  assumes "method_of_entry rest s = (Inr m, s1)"
  shows "rest \<noteq> [] \<and> ctype m = KMethod \<and> cname m = hd rest \<and>
         cparameters m = or_empty (if 1 < length rest then rest ! 1 else PNone) \<and>
         cbody m = or_empty (if 2 < length rest then rest ! 2 else PNone) \<and>
         fst (snd (cid m)) = KMethod \<and>
         s1 = s\<lparr>drawn := Suc (drawn s), heap := (heap s)(nxt s := []), nxt := Suc (nxt s),
                CLOSURES := (CLOSURES s)(cid m \<mapsto> nxt s)\<rparr>"
proof -
  consider (one) nm where "rest = [nm]" | (two) nm ps where "rest = [nm, ps]"
    | (three) nm ps b where "rest = [nm, ps, b]"
    | (other) "rest = [] \<or> 3 < length rest"
    by (cases "(rest, s)" rule: method_of_entry.cases) auto
  then show ?thesis
  proof cases
    case one
    with assms obtain m1 s2 where "new_method nm PNone PNone s = (m1, s2)" "m = m1" "s1 = s2"
      by (auto split: prod.splits)
    with new_method_result [of nm PNone PNone s m s1] one show ?thesis by simp
  next
    case two
    with assms obtain m1 s2 where "new_method nm ps PNone s = (m1, s2)" "m = m1" "s1 = s2"
      by (auto split: prod.splits)
    with new_method_result [of nm ps PNone s m s1] two show ?thesis by simp
  next
    case three
    with assms obtain m1 s2 where "new_method nm ps b s = (m1, s2)" "m = m1" "s1 = s2"
      by (auto split: prod.splits)
    with new_method_result [of nm ps b s m s1] three show ?thesis by simp
  next
    case other
    with assms show ?thesis
      by (cases "(rest, s)" rule: method_of_entry.cases) auto
  qed
qed

lemma func_entry_shape:
  assumes "tagged ''func'' e" and "py_index e 1 = Inr k"
  shows "\<exists>xs. e = PList xs \<and> 1 < length xs \<and> xs ! 1 = k \<and>
              py_slice_from e 1 = Inr (PList (drop 1 xs))"
  using assms by (cases e) (auto simp: tagged_def split: if_splits)

lemma collect_methods_step:
  assumes "tagged ''func'' e" and "e = PList xs"
  shows "collect_methods (e # es) d s =
           (case py_index e 1 of
              Inl er \<Rightarrow> (Inl er, s)
            | Inr k \<Rightarrow>
                (case method_of_entry (drop 1 xs) s of
                   (Inl er, s1) \<Rightarrow> (Inl er, s1)
                 | (Inr m, s1) \<Rightarrow>
                     if hashable k then collect_methods es (dict_put d k (PFunction m)) s1
                     else (Inl (TypeError Unhashable), s1)))"
  using assms by (simp add: tagged_def del: method_of_entry.simps split: sum.splits)

lemma collect_methods_skip:
  assumes "\<not> tagged ''func'' e" and "collect_methods (e # es) d s = (Inr d1, s1)"
  shows "collect_methods es d s = (Inr d1, s1)"
  using assms by (auto simp: tagged_def split: sum.splits if_splits)

lemma collect_methods_func:
  assumes "tagged ''func'' e" and "collect_methods (e # es) d s = (Inr d1, s1)"
  shows "\<exists>k m s2. py_index e 1 = Inr k \<and> hashable k \<and>
           ctype m = KMethod \<and> cname m = k \<and>
           cparameters m = or_empty (entry_field e 2) \<and> cbody m = or_empty (entry_field e 3) \<and>
           fst (snd (cid m)) = KMethod \<and>
           s2 = s\<lparr>drawn := Suc (drawn s), heap := (heap s)(nxt s := []), nxt := Suc (nxt s),
                  CLOSURES := (CLOSURES s)(cid m \<mapsto> nxt s)\<rparr> \<and>
           collect_methods es (dict_put d k (PFunction m)) s2 = (Inr d1, s1)"
proof -
  from tagged_list [OF assms(1)] obtain xs where xs: "e = PList xs" by auto
  note st = collect_methods_step [OF assms(1) xs, of es d s]
  from assms(2) st obtain k where k: "py_index e 1 = Inr k"
    by (cases "py_index e 1") auto
  from assms(2) st k obtain m s2 where
    me: "method_of_entry (drop 1 xs) s = (Inr m, s2)"
    by (cases "method_of_entry (drop 1 xs) s" rule: prod.exhaust [case_names Pair])
       (auto split: sum.splits)
  from assms(2) st k me have h: "hashable k"
    and rest: "collect_methods es (dict_put d k (PFunction m)) s2 = (Inr d1, s1)"
    by (auto split: if_splits)
  from k xs have len: "1 < length xs" "xs ! 1 = k" by (auto split: if_splits)
  have f2: "(if 1 < length (drop 1 xs) then drop 1 xs ! 1 else PNone) = entry_field e 2"
    using len by (auto simp: entry_field_def xs numeral_2_eq_2)
  have f3: "(if 2 < length (drop 1 xs) then drop 1 xs ! 2 else PNone) = entry_field e 3"
    using len by (auto simp: entry_field_def xs numeral_3_eq_3 numeral_2_eq_2)
  have hd: "hd (drop 1 xs) = k" using len by (simp add: hd_drop_conv_nth)
  from method_of_entry_result [OF me]
  have r: "ctype m = KMethod" "cname m = k"
    "cparameters m = or_empty (entry_field e 2)" "cbody m = or_empty (entry_field e 3)"
    "fst (snd (cid m)) = KMethod"
    "s2 = s\<lparr>drawn := Suc (drawn s), heap := (heap s)(nxt s := []), nxt := Suc (nxt s),
            CLOSURES := (CLOSURES s)(cid m \<mapsto> nxt s)\<rparr>"
    unfolding f2 f3 hd by blast+
  show ?thesis
    by (intro exI [of _ k] exI [of _ m] exI [of _ s2] conjI k h r rest)
qed

lemma collect_methods_append:
  "collect_methods (xs @ ys) d s =
     (case collect_methods xs d s of
        (Inl er, s1) \<Rightarrow> (Inl er, s1)
      | (Inr d1, s1) \<Rightarrow> collect_methods ys d1 s1)"
  by (induction xs arbitrary: d s)
     (auto simp del: method_of_entry.simps split: sum.splits prod.splits)

lemma collect_methods_keeps:
  assumes "collect_methods post d s = (Inr d1, s1)" and "(k0, v) \<in> set d"
    and "\<forall>e\<in>set post. tagged ''func'' e \<longrightarrow> (\<forall>k1. py_index e 1 = Inr k1 \<longrightarrow> \<not> py_key_eq k0 k1)"
  shows "(k0, v) \<in> set d1"
  using assms
proof (induction post arbitrary: d s)
  case Nil
  then show ?case by simp
next
  case (Cons e post)
  show ?case
  proof (cases "tagged ''func'' e")
    case True
    from collect_methods_func [OF True Cons.prems(1)] obtain k m s2 where
      k: "py_index e 1 = Inr k" and
      rest: "collect_methods post (dict_put d k (PFunction m)) s2 = (Inr d1, s1)" by blast
    from Cons.prems(3) True k have "\<not> py_key_eq k0 k" by simp
    from dict_put_keeps [OF Cons.prems(2) this]
    have "(k0, v) \<in> set (dict_put d k (PFunction m))" .
    from Cons.IH [OF rest this] Cons.prems(3) show ?thesis by simp
  next
    case False
    from collect_methods_skip [OF False Cons.prems(1)]
    have rest: "collect_methods post d s = (Inr d1, s1)" .
    from Cons.IH [OF rest Cons.prems(2)] Cons.prems(3) show ?thesis by simp
  qed
qed

lemma collect_methods_binds:
  assumes ok: "collect_methods (pre @ e # post) d s = (Inr d1, s1)"
    and e: "tagged ''func'' e" "py_index e 1 = Inr k"
    and later: "\<forall>e1\<in>set post. tagged ''func'' e1 \<longrightarrow> (\<forall>k1. py_index e1 1 = Inr k1 \<longrightarrow> \<not> py_key_eq k1 k)"
  shows "\<exists>k0 m. py_key_eq k0 k \<and> (k0, PFunction m) \<in> set d1 \<and> ctype m = KMethod \<and>
           cname m = k \<and> cparameters m = or_empty (entry_field e 2) \<and>
           cbody m = or_empty (entry_field e 3)"
proof -
  from ok obtain d2 s2 where rest: "collect_methods (e # post) d2 s2 = (Inr d1, s1)"
    by (auto simp: collect_methods_append split: sum.splits prod.splits)
  from collect_methods_func [OF e(1) rest] e(2) obtain m s3 where
    m: "ctype m = KMethod" "cname m = k" "cparameters m = or_empty (entry_field e 2)"
       "cbody m = or_empty (entry_field e 3)" and
    post: "collect_methods post (dict_put d2 k (PFunction m)) s3 = (Inr d1, s1)" by auto
  from dict_put_has obtain k0 where
    k0: "py_key_eq k0 k" "(k0, PFunction m) \<in> set (dict_put d2 k (PFunction m))" by blast
  have "\<forall>e1\<in>set post. tagged ''func'' e1 \<longrightarrow> (\<forall>k1. py_index e1 1 = Inr k1 \<longrightarrow> \<not> py_key_eq k0 k1)"
    using later k0(1) py_key_eq_sym py_key_eq_trans by blast
  from collect_methods_keeps [OF post k0(2) this] have "(k0, PFunction m) \<in> set d1" .
  with k0(1) m show ?thesis by blast
qed

lemma collect_methods_keys:
  assumes "collect_methods es d s = (Inr d1, s1)" and "k0 \<in> fst ` set d1"
  shows "k0 \<in> fst ` set d \<or> (\<exists>e\<in>set es. tagged ''func'' e \<and> py_index e 1 = Inr k0)"
  using assms
proof (induction es arbitrary: d s)
  case Nil
  then show ?case by simp
next
  case (Cons e es)
  show ?case
  proof (cases "tagged ''func'' e")
    case True
    from collect_methods_func [OF True Cons.prems(1)] obtain k m s2 where
      k: "py_index e 1 = Inr k" and
      rest: "collect_methods es (dict_put d k (PFunction m)) s2 = (Inr d1, s1)" by blast
    from Cons.IH [OF rest Cons.prems(2)]
    have "k0 \<in> fst ` set (dict_put d k (PFunction m)) \<or>
          (\<exists>x\<in>set es. tagged ''func'' x \<and> py_index x 1 = Inr k0)" .
    moreover have "k0 \<in> fst ` set (dict_put d k (PFunction m)) \<Longrightarrow> k0 = k \<or> k0 \<in> fst ` set d"
      using dict_put_keys [of d k "PFunction m"] by blast
    moreover have "tagged ''func'' e \<and> py_index e 1 = Inr k" using True k by simp
    ultimately show ?thesis by (metis list.set_intros(1) list.set_intros(2))
  next
    case False
    from collect_methods_skip [OF False Cons.prems(1)]
    have rest: "collect_methods es d s = (Inr d1, s1)" .
    from Cons.IH [OF rest Cons.prems(2)] show ?thesis
      by (metis list.set_intros(2))
  qed
qed

lemma collect_methods_values:
  assumes "collect_methods es d s = (Inr d1, s1)" and "v0 \<in> snd ` set d1"
  shows "v0 \<in> snd ` set d \<or> (\<exists>m. v0 = PFunction m \<and> ctype m = KMethod)"
  using assms
proof (induction es arbitrary: d s)
  case Nil
  then show ?case by simp
next
  case (Cons e es)
  show ?case
  proof (cases "tagged ''func'' e")
    case True
    from collect_methods_func [OF True Cons.prems(1)] obtain k m s2 where
      m: "ctype m = KMethod" and
      rest: "collect_methods es (dict_put d k (PFunction m)) s2 = (Inr d1, s1)" by blast
    from Cons.IH [OF rest Cons.prems(2)]
    have "v0 \<in> snd ` set (dict_put d k (PFunction m)) \<or>
          (\<exists>m. v0 = PFunction m \<and> ctype m = KMethod)" .
    moreover have "v0 \<in> snd ` set (dict_put d k (PFunction m)) \<Longrightarrow>
                     v0 = PFunction m \<or> v0 \<in> snd ` set d"
      using dict_put_values [of d k "PFunction m"] by blast
    ultimately show ?thesis using m by blast
  next
    case False
    from collect_methods_skip [OF False Cons.prems(1)]
    have rest: "collect_methods es d s = (Inr d1, s1)" .
    from Cons.IH [OF rest Cons.prems(2)] show ?thesis .
  qed
qed

lemma collect_methods_frame:
  assumes "collect_methods es d s = (Inr d1, s1)"
  shows "nxt s \<le> nxt s1 \<and> (\<forall>a<nxt s. heap s1 a = heap s a) \<and>
         (\<forall>i. fst (snd i) \<noteq> KMethod \<longrightarrow> CLOSURES s1 i = CLOSURES s i) \<and> ENV s1 = ENV s"
  using assms
proof (induction es arbitrary: d s)
  case Nil
  then show ?case by simp
next
  case (Cons e es)
  show ?case
  proof (cases "tagged ''func'' e")
    case True
    from collect_methods_func [OF True Cons.prems(1)] obtain k m s2 where
      m: "fst (snd (cid m)) = KMethod" and
      s2: "s2 = s\<lparr>drawn := Suc (drawn s), heap := (heap s)(nxt s := []), nxt := Suc (nxt s),
                  CLOSURES := (CLOSURES s)(cid m \<mapsto> nxt s)\<rparr>" and
      rest: "collect_methods es (dict_put d k (PFunction m)) s2 = (Inr d1, s1)" by blast
    from Cons.IH [OF rest]
    have ih: "nxt s2 \<le> nxt s1" "\<forall>a<nxt s2. heap s1 a = heap s2 a"
      "\<forall>i. fst (snd i) \<noteq> KMethod \<longrightarrow> CLOSURES s1 i = CLOSURES s2 i" "ENV s1 = ENV s2"
      by blast+
    have a: "nxt s \<le> nxt s1" using ih(1) by (simp add: s2)
    have b: "\<forall>a<nxt s. heap s1 a = heap s a" using ih(2) by (simp add: s2)
    have c: "\<forall>i. fst (snd i) \<noteq> KMethod \<longrightarrow> CLOSURES s1 i = CLOSURES s i"
    proof (intro allI impI)
      fix i :: ident assume i: "fst (snd i) \<noteq> KMethod"
      with m have "i \<noteq> cid m" by metis
      moreover from ih(3) i have "CLOSURES s1 i = CLOSURES s2 i" by blast
      ultimately show "CLOSURES s1 i = CLOSURES s i" by (simp add: s2)
    qed
    have d: "ENV s1 = ENV s" using ih(4) by (simp add: s2)
    from a b c d show ?thesis by blast
  next
    case False
    from collect_methods_skip [OF False Cons.prems(1)]
    have rest: "collect_methods es d s = (Inr d1, s1)" .
    from Cons.IH [OF rest] show ?thesis .
  qed
qed

lemma find_init_first:
  assumes "find_init (pre @ m # post) = Inr init" and "\<forall>e\<in>set pre. \<not> tagged ''init'' e"
    and "tagged ''init'' m"
  shows "py_slice_from m 1 = Inr init"
  using assms
  by (induction pre) (auto simp: tagged_def split: sum.splits if_splits)

lemma find_init_none:
  assumes "find_init es = Inr init" and "\<forall>e\<in>set es. \<not> tagged ''init'' e"
  shows "init = PNone"
  using assms
  by (induction es) (auto simp: tagged_def split: sum.splits if_splits)

lemma bind_in_closure_lists:
  assumes "CLOSURES s i = Some a"
  shows "bind_in_closure i (PList (map fst d)) (PList (map snd d)) s =
           Inr (s\<lparr>heap := (heap s)(a := heap s a @ d)\<rparr>)"
  using assms by (simp add: bind_in_closure_def match_arguments_def zip_map_fst_snd)

lemma Template_init_result:
  assumes ok: "Template_init name parameters body s = (Inr tv, s1)"
  shows "\<exists>c init es methods variables s2 s3.
           c = Closable name (or_empty parameters) (or_empty body) KTemplate
                 (fst (draw s), KTemplate, id_name name) \<and>
           tv = PTemplate c init \<and>
           py_iter (or_empty body) = Inr es \<and>
           s2 = s\<lparr>drawn := Suc (drawn s), heap := (heap s)(nxt s := []), nxt := Suc (nxt s),
                  CLOSURES := (CLOSURES s)(cid c \<mapsto> nxt s)\<rparr> \<and>
           collect_methods es [] s2 = (Inr methods, s3) \<and>
           collect_variables es [] = Inr variables \<and>
           find_init es = Inr init \<and>
           CLOSURES s1 (cid c) = Some (nxt s) \<and>
           heap s1 (nxt s) = variables @ methods \<and>
           ENV s1 = ENV s"
proof -
  define c where "c = Closable name (or_empty parameters) (or_empty body) KTemplate
                 (fst (draw s), KTemplate, id_name name)"
  define s2 where "s2 = s\<lparr>drawn := Suc (drawn s), heap := (heap s)(nxt s := []),
                  nxt := Suc (nxt s), CLOSURES := (CLOSURES s)(cid c \<mapsto> nxt s)\<rparr>"
  have ci: "Closable_init KTemplate name parameters body s = (c, s2)"
    by (simp add: Closable_init_def draw_def alloc_def env_empty_def c_def s2_def)
  have cb: "cbody c = or_empty body" and cidc: "fst (snd (cid c)) = KTemplate"
    by (simp_all add: c_def)
  from ok ci cb obtain es where es: "py_iter (or_empty body) = Inr es"
    by (cases "py_iter (or_empty body)") (auto simp: Template_init_def)
  from ok ci cb es obtain methods s3 where cm: "collect_methods es [] s2 = (Inr methods, s3)"
    by (cases "collect_methods es [] s2" rule: prod.exhaust [case_names Pair])
       (auto simp: Template_init_def split: sum.splits)
  from ok ci cb es cm obtain variables where cv: "collect_variables es [] = Inr variables"
    by (cases "collect_variables es []") (auto simp: Template_init_def)
  from ok ci cb es cm cv obtain init where fi: "find_init es = Inr init"
    by (cases "find_init es") (auto simp: Template_init_def)
  from collect_methods_frame [OF cm]
  have fr: "\<forall>a<nxt s2. heap s3 a = heap s2 a"
    "\<forall>i. fst (snd i) \<noteq> KMethod \<longrightarrow> CLOSURES s3 i = CLOSURES s2 i" "ENV s3 = ENV s2"
    by blast+
  have "fst (snd (cid c)) \<noteq> KMethod" using cidc by simp
  with fr(2) have "CLOSURES s3 (cid c) = CLOSURES s2 (cid c)" by blast
  then have c3: "CLOSURES s3 (cid c) = Some (nxt s)"
    by (simp add: s2_def)
  have h3: "heap s3 (nxt s) = []"
    using fr(1) by (simp add: s2_def)
  define s4 where "s4 = s3\<lparr>heap := (heap s3)(nxt s := heap s3 (nxt s) @ variables)\<rparr>"
  have b1: "bind_in_closure (cid c) (PList (map fst variables)) (PList (map snd variables)) s3
              = Inr s4"
    unfolding s4_def by (rule bind_in_closure_lists [OF c3])
  have c4: "CLOSURES s4 (cid c) = Some (nxt s)" using c3 by (simp add: s4_def)
  define s5 where "s5 = s4\<lparr>heap := (heap s4)(nxt s := heap s4 (nxt s) @ methods)\<rparr>"
  have b2: "bind_in_closure (cid c) (PList (map fst methods)) (PList (map snd methods)) s4
              = Inr s5"
    unfolding s5_def by (rule bind_in_closure_lists [OF c4])
  from ok have r: "tv = PTemplate c init" "s1 = s5"
    by (simp_all add: Template_init_def ci cb es cm cv fi b1 b2)
  have "CLOSURES s1 (cid c) = Some (nxt s)" using c4 by (simp add: r s5_def)
  moreover have "heap s1 (nxt s) = variables @ methods"
    using h3 by (simp add: r s5_def s4_def)
  moreover have "ENV s1 = ENV s" using fr(3) by (simp add: r s5_def s4_def s2_def)
  ultimately show ?thesis
    using r(1) es cm cv fi c_def s2_def by blast
qed

lemma distinct_keys_unique:
  assumes "distinct_keys d" and "(k1, v1) \<in> set d" and "(k2, v2) \<in> set d" and "py_key_eq k1 k2"
  shows "k1 = k2 \<and> v1 = v2"
  using assms
proof (induction d)
  case Nil
  then show ?case by simp
next
  case (Cons p d)
  obtain k v where p: "p = (k, v)" by (cases p)
  from Cons.prems(1) p have na: "\<forall>q\<in>set d. \<not> py_key_eq k (fst q)" and dd: "distinct_keys d"
    by (simp_all add: list_all_iff)
  show ?case
  proof (cases "(k1, v1) = p")
    case True
    show ?thesis
    proof (cases "(k2, v2) = p")
      case True
      with \<open>(k1, v1) = p\<close> show ?thesis by (metis prod.inject)
    next
      case False
      with Cons.prems(3) have "(k2, v2) \<in> set d" by simp
      with na have "\<not> py_key_eq k k2" by force
      with True p Cons.prems(4) show ?thesis by simp
    qed
  next
    case False
    with Cons.prems(2) have in1: "(k1, v1) \<in> set d" by simp
    show ?thesis
    proof (cases "(k2, v2) = p")
      case True
      from in1 na have "\<not> py_key_eq k k1" by force
      with True p Cons.prems(4) py_key_eq_sym show ?thesis by blast
    next
      case False
      with Cons.prems(3) have "(k2, v2) \<in> set d" by simp
      from Cons.IH [OF dd in1 this Cons.prems(4)] show ?thesis .
    qed
  qed
qed

lemma dict_put_distinct: "distinct_keys d \<Longrightarrow> distinct_keys (dict_put d k v)"
proof (induction d)
  case Nil
  then show ?case by simp
next
  case (Cons p d)
  obtain k1 v1 where p: "p = (k1, v1)" by (cases p)
  from Cons.prems p have na: "\<forall>q\<in>set d. \<not> py_key_eq k1 (fst q)" and dd: "distinct_keys d"
    by (simp_all add: list_all_iff)
  show ?case
  proof (cases "py_key_eq k1 k")
    case True
    with p na dd show ?thesis by (simp add: list_all_iff)
  next
    case False
    have "\<forall>q\<in>set (dict_put d k v). \<not> py_key_eq k1 (fst q)"
    proof
      fix q assume "q \<in> set (dict_put d k v)"
      then have "fst q \<in> fst ` set (dict_put d k v)" by simp
      with dict_put_keys [of d k v] have "fst q = k \<or> fst q \<in> fst ` set d" by blast
      then show "\<not> py_key_eq k1 (fst q)" using False na by auto
    qed
    with False p Cons.IH [OF dd] show ?thesis by (simp add: list_all_iff)
  qed
qed

lemma collect_variables_distinct:
  "collect_variables es d = Inr d1 \<Longrightarrow> distinct_keys d \<Longrightarrow> distinct_keys d1"
proof (induction es arbitrary: d)
  case Nil
  then show ?case by simp
next
  case (Cons e es)
  show ?case
  proof (cases "tagged ''var'' e")
    case True
    with Cons.prems(1) obtain k1 v1 where
      rest: "collect_variables es (dict_put d k1 v1) = Inr d1"
      by (auto simp: tagged_def split: sum.splits if_splits)
    from Cons.IH [OF rest dict_put_distinct [OF Cons.prems(2)]] show ?thesis .
  next
    case False
    with Cons.prems(1) have rest: "collect_variables es d = Inr d1"
      by (auto simp: tagged_def split: sum.splits if_splits)
    from Cons.IH [OF rest Cons.prems(2)] show ?thesis .
  qed
qed

lemma collect_methods_distinct:
  "collect_methods es d s = (Inr d1, s1) \<Longrightarrow> distinct_keys d \<Longrightarrow> distinct_keys d1"
proof (induction es arbitrary: d s)
  case Nil
  then show ?case by simp
next
  case (Cons e es)
  show ?case
  proof (cases "tagged ''func'' e")
    case True
    from collect_methods_func [OF True Cons.prems(1)] obtain k m s2 where
      rest: "collect_methods es (dict_put d k (PFunction m)) s2 = (Inr d1, s1)" by blast
    from Cons.IH [OF rest dict_put_distinct [OF Cons.prems(2)]] show ?thesis .
  next
    case False
    from collect_methods_skip [OF False Cons.prems(1)]
    have rest: "collect_methods es d s = (Inr d1, s1)" .
    from Cons.IH [OF rest Cons.prems(2)] show ?thesis .
  qed
qed

lemma collect_variables_entry:
  assumes "collect_variables (pre @ e # post) d = Inr d1" and "tagged ''var'' e"
  shows "\<exists>k v. py_index e 1 = Inr k \<and> py_index e 2 = Inr v"
proof -
  from assms(1) obtain d2 where "collect_variables (e # post) d2 = Inr d1"
    by (auto simp: collect_variables_append split: sum.splits)
  with assms(2) show ?thesis
    by (auto simp: tagged_def split: sum.splits if_splits)
qed

lemma collect_variables_last:
  assumes cv: "collect_variables es [] = Inr variables" and b: "(k0, v0) \<in> set variables"
  shows "\<exists>pre e post k.
           es = pre @ e # post \<and> tagged ''var'' e \<and> py_index e 1 = Inr k \<and> py_key_eq k0 k \<and>
           py_index e 2 = Inr v0 \<and>
           (\<forall>e1\<in>set post. tagged ''var'' e1 \<longrightarrow>
              (\<forall>k1. py_index e1 1 = Inr k1 \<longrightarrow> \<not> py_key_eq k1 k))"
proof -
  let ?P = "\<lambda>e. tagged ''var'' e \<and> (\<exists>k1. py_index e 1 = Inr k1 \<and> py_key_eq k1 k0)"
  from b have "k0 \<in> fst ` set variables" by (auto intro: rev_image_eqI)
  from collect_variables_keys [OF cv this]
  have "\<exists>e\<in>set es. tagged ''var'' e \<and> py_index e 1 = Inr k0" by simp
  then have "\<exists>e\<in>set es. ?P e" using py_key_eq_refl by blast
  from split_list_last_prop [OF this] obtain pre e post where
    es: "es = pre @ e # post" and Pe: "?P e" and none: "\<forall>z\<in>set post. \<not> ?P z" by blast
  from Pe obtain k where k: "tagged ''var'' e" "py_index e 1 = Inr k" "py_key_eq k k0" by blast
  from cv es have cv': "collect_variables (pre @ e # post) [] = Inr variables" by simp
  from collect_variables_entry [OF cv' k(1)] k(2) obtain v where v: "py_index e 2 = Inr v" by auto
  have later: "\<forall>e1\<in>set post. tagged ''var'' e1 \<longrightarrow>
              (\<forall>k1. py_index e1 1 = Inr k1 \<longrightarrow> \<not> py_key_eq k1 k)"
    using none k(3) py_key_eq_trans by blast
  from collect_variables_binds [OF cv' k(1) k(2) v later] obtain k0' where
    k0': "py_key_eq k0' k" "(k0', v) \<in> set variables" by blast
  have dk: "distinct_keys variables" using collect_variables_distinct [OF cv] by simp
  from k0'(1) k(3) have "py_key_eq k0' k0" using py_key_eq_trans by blast
  from distinct_keys_unique [OF dk k0'(2) b this] have "v = v0" by simp
  with es k v later py_key_eq_sym show ?thesis by blast
qed

lemma collect_methods_last:
  assumes cm: "collect_methods es [] s = (Inr methods, s1)" and b: "(k0, v0) \<in> set methods"
  shows "\<exists>pre e post k m.
           es = pre @ e # post \<and> tagged ''func'' e \<and> py_index e 1 = Inr k \<and> py_key_eq k0 k \<and>
           v0 = PFunction m \<and> ctype m = KMethod \<and> cname m = k \<and>
           cparameters m = or_empty (entry_field e 2) \<and> cbody m = or_empty (entry_field e 3) \<and>
           (\<forall>e1\<in>set post. tagged ''func'' e1 \<longrightarrow>
              (\<forall>k1. py_index e1 1 = Inr k1 \<longrightarrow> \<not> py_key_eq k1 k))"
proof -
  let ?P = "\<lambda>e. tagged ''func'' e \<and> (\<exists>k1. py_index e 1 = Inr k1 \<and> py_key_eq k1 k0)"
  from b have "k0 \<in> fst ` set methods" by (auto intro: rev_image_eqI)
  from collect_methods_keys [OF cm this]
  have "\<exists>e\<in>set es. tagged ''func'' e \<and> py_index e 1 = Inr k0" by simp
  then have "\<exists>e\<in>set es. ?P e" using py_key_eq_refl by blast
  from split_list_last_prop [OF this] obtain pre e post where
    es: "es = pre @ e # post" and Pe: "?P e" and none: "\<forall>z\<in>set post. \<not> ?P z" by blast
  from Pe obtain k where k: "tagged ''func'' e" "py_index e 1 = Inr k" "py_key_eq k k0" by blast
  from cm es have cm': "collect_methods (pre @ e # post) [] s = (Inr methods, s1)" by simp
  have later: "\<forall>e1\<in>set post. tagged ''func'' e1 \<longrightarrow>
              (\<forall>k1. py_index e1 1 = Inr k1 \<longrightarrow> \<not> py_key_eq k1 k)"
    using none k(3) py_key_eq_trans by blast
  from collect_methods_binds [OF cm' k(1) k(2) later] obtain k0' m where
    k0': "py_key_eq k0' k" "(k0', PFunction m) \<in> set methods" and
    m: "ctype m = KMethod" "cname m = k" "cparameters m = or_empty (entry_field e 2)"
       "cbody m = or_empty (entry_field e 3)" by blast
  have dk: "distinct_keys methods" using collect_methods_distinct [OF cm] by simp
  from k0'(1) k(3) have "py_key_eq k0' k0" using py_key_eq_trans by blast
  from distinct_keys_unique [OF dk k0'(2) b this] have "v0 = PFunction m" by simp
  with es k m later py_key_eq_sym show ?thesis by blast
qed

lemmas init_defs = Template_init_def Closable_init_def new_method_def draw_def alloc_def
  env_empty_def or_empty_def bind_in_closure_def match_arguments_def py_key_eq_def id_name_def
  tmpl_body_def tmpl_method_def tmpl_object_def init_state_def Let_def

text \<open>
  C6, as amended. A successful construction registers the template under its
  identifier with a new environment that holds the variable bindings followed by the
  method bindings, and among the variable bindings, as among the method bindings, no
  two have equal names. For the entries of the body: an entry tagged \<^verbatim>\<open>var\<close> whose
  name is not declared again by a later \<^verbatim>\<open>var\<close> entry is a binding of that name to
  its unevaluated initializer; an entry tagged \<^verbatim>\<open>func\<close> whose name is not declared
  again by a later \<^verbatim>\<open>func\<close> entry is a binding of that name to a Function of kind
  \<^verbatim>\<open>method\<close> with the entry's name, parameters and body. Conversely every variable
  binding holds the initializer of the last \<^verbatim>\<open>var\<close> entry of its name and every
  method binding the method of the last \<^verbatim>\<open>func\<close> entry of its name: of a name
  declared more than once one binding is made, holding the last declaration, as in a
  Python dict; and no binding comes from an \<^verbatim>\<open>init\<close> entry. \<^verbatim>\<open>self.init\<close> is the
  statement sequence of the first entry tagged \<^verbatim>\<open>init\<close>, or \<^verbatim>\<open>None\<close> when there is
  none.
\<close>

theorem Template_init_members:
  assumes "Template_init name parameters body s = (Inr tv, s1)"
  shows "\<exists>c init es variables methods.
     tv = PTemplate c init \<and> ctype c = KTemplate \<and> py_iter (or_empty body) = Inr es \<and>
     CLOSURES s1 (cid c) = Some (nxt s) \<and>
     heap s1 (nxt s) = variables @ methods \<and>
     distinct_keys variables \<and> distinct_keys methods \<and>
     (\<forall>pre e post k v.
        es = pre @ e # post \<and> tagged ''var'' e \<and> py_index e 1 = Inr k \<and> py_index e 2 = Inr v \<and>
        (\<forall>e1\<in>set post. tagged ''var'' e1 \<longrightarrow> (\<forall>k1. py_index e1 1 = Inr k1 \<longrightarrow> \<not> py_key_eq k1 k)) \<longrightarrow>
        (\<exists>k0. py_key_eq k0 k \<and> (k0, v) \<in> set variables)) \<and>
     (\<forall>pre e post k.
        es = pre @ e # post \<and> tagged ''func'' e \<and> py_index e 1 = Inr k \<and>
        (\<forall>e1\<in>set post. tagged ''func'' e1 \<longrightarrow> (\<forall>k1. py_index e1 1 = Inr k1 \<longrightarrow> \<not> py_key_eq k1 k)) \<longrightarrow>
        (\<exists>k0 m. py_key_eq k0 k \<and> (k0, PFunction m) \<in> set methods \<and>
                ctype m = KMethod \<and> cname m = k \<and>
                cparameters m = or_empty (entry_field e 2) \<and>
                cbody m = or_empty (entry_field e 3))) \<and>
     (\<forall>k0 v0. (k0, v0) \<in> set variables \<longrightarrow>
        (\<exists>pre e post k.
           es = pre @ e # post \<and> tagged ''var'' e \<and> py_index e 1 = Inr k \<and> py_key_eq k0 k \<and>
           py_index e 2 = Inr v0 \<and>
           (\<forall>e1\<in>set post. tagged ''var'' e1 \<longrightarrow>
              (\<forall>k1. py_index e1 1 = Inr k1 \<longrightarrow> \<not> py_key_eq k1 k)))) \<and>
     (\<forall>k0 v0. (k0, v0) \<in> set methods \<longrightarrow>
        (\<exists>pre e post k m.
           es = pre @ e # post \<and> tagged ''func'' e \<and> py_index e 1 = Inr k \<and> py_key_eq k0 k \<and>
           v0 = PFunction m \<and> ctype m = KMethod \<and> cname m = k \<and>
           cparameters m = or_empty (entry_field e 2) \<and> cbody m = or_empty (entry_field e 3) \<and>
           (\<forall>e1\<in>set post. tagged ''func'' e1 \<longrightarrow>
              (\<forall>k1. py_index e1 1 = Inr k1 \<longrightarrow> \<not> py_key_eq k1 k)))) \<and>
     (\<forall>pre m post.
        es = pre @ m # post \<and> tagged ''init'' m \<and> (\<forall>e\<in>set pre. \<not> tagged ''init'' e) \<longrightarrow>
        py_slice_from m 1 = Inr init) \<and>
     ((\<forall>e\<in>set es. \<not> tagged ''init'' e) \<longrightarrow> init = PNone)"
proof -
  from Template_init_result [OF assms] obtain c init es methods variables s2 s3 where
    c: "c = Closable name (or_empty parameters) (or_empty body) KTemplate
              (fst (draw s), KTemplate, id_name name)" and
    tv: "tv = PTemplate c init" and es: "py_iter (or_empty body) = Inr es" and
    cm: "collect_methods es [] s2 = (Inr methods, s3)" and
    cv: "collect_variables es [] = Inr variables" and
    fi: "find_init es = Inr init" and
    reg: "CLOSURES s1 (cid c) = Some (nxt s)" and
    hp: "heap s1 (nxt s) = variables @ methods" by blast
  have kc: "ctype c = KTemplate" by (simp add: c)
  have dv: "distinct_keys variables" using collect_variables_distinct [OF cv] by simp
  have dm: "distinct_keys methods" using collect_methods_distinct [OF cm] by simp
  have vars: "\<forall>pre e post k v.
        es = pre @ e # post \<and> tagged ''var'' e \<and> py_index e 1 = Inr k \<and> py_index e 2 = Inr v \<and>
        (\<forall>e1\<in>set post. tagged ''var'' e1 \<longrightarrow> (\<forall>k1. py_index e1 1 = Inr k1 \<longrightarrow> \<not> py_key_eq k1 k)) \<longrightarrow>
        (\<exists>k0. py_key_eq k0 k \<and> (k0, v) \<in> set variables)"
  proof (intro allI impI)
    fix pre e post k v
    assume h: "es = pre @ e # post \<and> tagged ''var'' e \<and> py_index e 1 = Inr k \<and> py_index e 2 = Inr v \<and>
        (\<forall>e1\<in>set post. tagged ''var'' e1 \<longrightarrow> (\<forall>k1. py_index e1 1 = Inr k1 \<longrightarrow> \<not> py_key_eq k1 k))"
    then have "collect_variables (pre @ e # post) [] = Inr variables" using cv by simp
    from collect_variables_binds [OF this] h
    show "\<exists>k0. py_key_eq k0 k \<and> (k0, v) \<in> set variables" by blast
  qed
  have funcs: "\<forall>pre e post k.
        es = pre @ e # post \<and> tagged ''func'' e \<and> py_index e 1 = Inr k \<and>
        (\<forall>e1\<in>set post. tagged ''func'' e1 \<longrightarrow> (\<forall>k1. py_index e1 1 = Inr k1 \<longrightarrow> \<not> py_key_eq k1 k)) \<longrightarrow>
        (\<exists>k0 m. py_key_eq k0 k \<and> (k0, PFunction m) \<in> set methods \<and>
                ctype m = KMethod \<and> cname m = k \<and>
                cparameters m = or_empty (entry_field e 2) \<and>
                cbody m = or_empty (entry_field e 3))"
  proof (intro allI impI)
    fix pre e post k
    assume h: "es = pre @ e # post \<and> tagged ''func'' e \<and> py_index e 1 = Inr k \<and>
        (\<forall>e1\<in>set post. tagged ''func'' e1 \<longrightarrow> (\<forall>k1. py_index e1 1 = Inr k1 \<longrightarrow> \<not> py_key_eq k1 k))"
    then have "collect_methods (pre @ e # post) [] s2 = (Inr methods, s3)" using cm by simp
    from collect_methods_binds [OF this] h
    show "\<exists>k0 m. py_key_eq k0 k \<and> (k0, PFunction m) \<in> set methods \<and>
                ctype m = KMethod \<and> cname m = k \<and>
                cparameters m = or_empty (entry_field e 2) \<and>
                cbody m = or_empty (entry_field e 3)" by blast
  qed
  have lastv: "\<forall>k0 v0. (k0, v0) \<in> set variables \<longrightarrow>
        (\<exists>pre e post k.
           es = pre @ e # post \<and> tagged ''var'' e \<and> py_index e 1 = Inr k \<and> py_key_eq k0 k \<and>
           py_index e 2 = Inr v0 \<and>
           (\<forall>e1\<in>set post. tagged ''var'' e1 \<longrightarrow>
              (\<forall>k1. py_index e1 1 = Inr k1 \<longrightarrow> \<not> py_key_eq k1 k)))"
    using collect_variables_last [OF cv] by blast
  have lastm: "\<forall>k0 v0. (k0, v0) \<in> set methods \<longrightarrow>
        (\<exists>pre e post k m.
           es = pre @ e # post \<and> tagged ''func'' e \<and> py_index e 1 = Inr k \<and> py_key_eq k0 k \<and>
           v0 = PFunction m \<and> ctype m = KMethod \<and> cname m = k \<and>
           cparameters m = or_empty (entry_field e 2) \<and> cbody m = or_empty (entry_field e 3) \<and>
           (\<forall>e1\<in>set post. tagged ''func'' e1 \<longrightarrow>
              (\<forall>k1. py_index e1 1 = Inr k1 \<longrightarrow> \<not> py_key_eq k1 k)))"
    using collect_methods_last [OF cm] by blast
  have init1: "\<forall>pre m post.
        es = pre @ m # post \<and> tagged ''init'' m \<and> (\<forall>e\<in>set pre. \<not> tagged ''init'' e) \<longrightarrow>
        py_slice_from m 1 = Inr init"
    using find_init_first fi by blast
  have init2: "(\<forall>e\<in>set es. \<not> tagged ''init'' e) \<longrightarrow> init = PNone"
    using find_init_none [OF fi] by blast
  show ?thesis
    by (intro exI [of _ c] exI [of _ init] exI [of _ es] exI [of _ variables] exI [of _ methods]
        conjI tv kc es reg hp dv dm vars funcs lastv lastm init1 init2)
qed

theorem Template_init_members_witness:
  "Template_init (PStr ''T'') PNone tmpl_body init_state
     = (Inr (PTemplate tmpl_object (PList [PStr ''a'', PStr ''b''])),
        snd (Template_init (PStr ''T'') PNone tmpl_body init_state)) \<and>
   CLOSURES (snd (Template_init (PStr ''T'') PNone tmpl_body init_state)) (cid tmpl_object)
     = Some 0 \<and>
   heap (snd (Template_init (PStr ''T'') PNone tmpl_body init_state)) 0
     = [(PStr ''x'', PInt 2), (PStr ''inc'', PFunction tmpl_method)] \<and>
   (\<exists>variables methods.
      heap (snd (Template_init (PStr ''T'') PNone tmpl_body init_state)) 0 = variables @ methods \<and>
      distinct_keys variables \<and> distinct_keys methods \<and>
      (\<exists>k0. py_key_eq k0 (PStr ''x'') \<and> (k0, PInt 2) \<in> set variables) \<and>
      (PStr ''x'', PInt 1) \<notin> set variables \<and>
      (\<exists>k0 m. py_key_eq k0 (PStr ''inc'') \<and> (k0, PFunction m) \<in> set methods \<and>
         ctype m = KMethod \<and> cname m = PStr ''inc'' \<and> cparameters m = PList [] \<and>
         cbody m = PStr ''b'')) \<and>
   py_slice_from (PList [PStr ''init'', PStr ''a'', PStr ''b'']) 1
     = Inr (PList [PStr ''a'', PStr ''b''])"
proof -
  let ?s1 = "snd (Template_init (PStr ''T'') PNone tmpl_body init_state)"
  let ?e1 = "PList [PStr ''var'', PStr ''x'', PInt 1]"
  let ?e2 = "PList [PStr ''var'', PStr ''x'', PInt 2]"
  let ?e3 = "PList [PStr ''func'', PStr ''inc'', PList [], PStr ''b'']"
  let ?e4 = "PList [PStr ''init'', PStr ''a'', PStr ''b'']"
  let ?e5 = "PList [PStr ''init'', PStr ''c'']"
  have "fst (Template_init (PStr ''T'') PNone tmpl_body init_state)
          = Inr (PTemplate tmpl_object (PList [PStr ''a'', PStr ''b'']))"
    by (simp add: init_defs)
  then have run: "Template_init (PStr ''T'') PNone tmpl_body init_state
          = (Inr (PTemplate tmpl_object (PList [PStr ''a'', PStr ''b''])), ?s1)"
    by (metis prod.collapse)
  have hp0: "heap ?s1 0 = [(PStr ''x'', PInt 2), (PStr ''inc'', PFunction tmpl_method)]"
    by (simp add: init_defs)
  have n0: "nxt init_state = 0" by (simp add: init_state_def)
  have body: "py_iter (or_empty tmpl_body) = Inr [?e1, ?e2, ?e3, ?e4, ?e5]"
    by (simp add: tmpl_body_def or_empty_def)
  from Template_init_members [OF run] obtain c init es variables methods where
    tv: "PTemplate tmpl_object (PList [PStr ''a'', PStr ''b'']) = PTemplate c init" and
    es: "py_iter (or_empty tmpl_body) = Inr es" and
    reg: "CLOSURES ?s1 (cid c) = Some (nxt init_state)" and
    hp: "heap ?s1 (nxt init_state) = variables @ methods" and
    dv: "distinct_keys variables" and dm: "distinct_keys methods" and
    vars: "\<forall>pre e post k v.
        es = pre @ e # post \<and> tagged ''var'' e \<and> py_index e 1 = Inr k \<and> py_index e 2 = Inr v \<and>
        (\<forall>e1\<in>set post. tagged ''var'' e1 \<longrightarrow> (\<forall>k1. py_index e1 1 = Inr k1 \<longrightarrow> \<not> py_key_eq k1 k)) \<longrightarrow>
        (\<exists>k0. py_key_eq k0 k \<and> (k0, v) \<in> set variables)" and
    funcs: "\<forall>pre e post k.
        es = pre @ e # post \<and> tagged ''func'' e \<and> py_index e 1 = Inr k \<and>
        (\<forall>e1\<in>set post. tagged ''func'' e1 \<longrightarrow> (\<forall>k1. py_index e1 1 = Inr k1 \<longrightarrow> \<not> py_key_eq k1 k)) \<longrightarrow>
        (\<exists>k0 m. py_key_eq k0 k \<and> (k0, PFunction m) \<in> set methods \<and>
                ctype m = KMethod \<and> cname m = k \<and>
                cparameters m = or_empty (entry_field e 2) \<and>
                cbody m = or_empty (entry_field e 3))" and
    init1: "\<forall>pre m post.
        es = pre @ m # post \<and> tagged ''init'' m \<and> (\<forall>e\<in>set pre. \<not> tagged ''init'' e) \<longrightarrow>
        py_slice_from m 1 = Inr init"
    by (elim exE conjE) (rule that, assumption+)
  from tv have c: "c = tmpl_object" and init: "init = PList [PStr ''a'', PStr ''b'']" by simp_all
  from es body have es': "es = [?e1, ?e2, ?e3, ?e4, ?e5]" by simp
  have v: "\<exists>k0. py_key_eq k0 (PStr ''x'') \<and> (k0, PInt 2) \<in> set variables"
    using vars [rule_format, of "[?e1]" ?e2 "[?e3, ?e4, ?e5]" "PStr ''x''" "PInt 2"]
    by (simp add: es' tagged_def)
  then obtain k0 where k0: "py_key_eq k0 (PStr ''x'')" "(k0, PInt 2) \<in> set variables" by blast
  have nv: "(PStr ''x'', PInt 1) \<notin> set variables"
  proof
    assume "(PStr ''x'', PInt 1) \<in> set variables"
    from distinct_keys_unique [OF dv k0(2) this k0(1)] show False by simp
  qed
  have f: "\<exists>k0 m. py_key_eq k0 (PStr ''inc'') \<and> (k0, PFunction m) \<in> set methods \<and>
      ctype m = KMethod \<and> cname m = PStr ''inc'' \<and> cparameters m = PList [] \<and>
      cbody m = PStr ''b''"
    using funcs [rule_format, of "[?e1, ?e2]" ?e3 "[?e4, ?e5]" "PStr ''inc''"]
    by (simp add: es' tagged_def entry_field_def or_empty_def)
  have i: "py_slice_from ?e4 1 = Inr (PList [PStr ''a'', PStr ''b''])"
    using init1 [rule_format, of "[?e1, ?e2, ?e3]" ?e4 "[?e5]"]
    by (simp add: es' tagged_def init)
  have ex: "\<exists>variables methods.
      heap ?s1 0 = variables @ methods \<and>
      distinct_keys variables \<and> distinct_keys methods \<and>
      (\<exists>k0. py_key_eq k0 (PStr ''x'') \<and> (k0, PInt 2) \<in> set variables) \<and>
      (PStr ''x'', PInt 1) \<notin> set variables \<and>
      (\<exists>k0 m. py_key_eq k0 (PStr ''inc'') \<and> (k0, PFunction m) \<in> set methods \<and>
         ctype m = KMethod \<and> cname m = PStr ''inc'' \<and> cparameters m = PList [] \<and>
         cbody m = PStr ''b'')"
    using hp dv dm v nv f unfolding n0 by blast
  from run reg hp0 ex i show ?thesis by (simp add: c n0)
qed

theorem Template_init_duplicate_counterexample:
  "py_iter tmpl_body =
     Inr [PList [PStr ''var'', PStr ''x'', PInt 1],
          PList [PStr ''var'', PStr ''x'', PInt 2],
          PList [PStr ''func'', PStr ''inc'', PList [], PStr ''b''],
          PList [PStr ''init'', PStr ''a'', PStr ''b''],
          PList [PStr ''init'', PStr ''c'']] \<and>
   tagged ''var'' (PList [PStr ''var'', PStr ''x'', PInt 1]) \<and>
   fst (Template_init (PStr ''T'') PNone tmpl_body init_state)
     = Inr (PTemplate tmpl_object (PList [PStr ''a'', PStr ''b''])) \<and>
   heap (snd (Template_init (PStr ''T'') PNone tmpl_body init_state)) 0
     = [(PStr ''x'', PInt 2), (PStr ''inc'', PFunction tmpl_method)] \<and>
   (PStr ''x'', PInt 1) \<notin> set (heap (snd (Template_init (PStr ''T'') PNone tmpl_body init_state)) 0)"
  by (simp add: init_defs tagged_def)

end
